theory Spec2Isabelle
  imports Complex_Main "HOL-Library.AList"
begin

section \<open>Python strings\<close>

text \<open>
  A Python \<open>str\<close> is a sequence of Unicode code points, so a text is a list of
  code points. The character tables below are Python's on the ASCII range; the
  whitespace table is the full one of \<open>str.isspace\<close>. Case mapping, decimal digits
  and word characters of code points above 127 are not tabulated: the development
  covers texts made of ASCII characters and the five currency symbols of
  \<open>CURRENCY_SYMBOLS\<close>.
\<close>

type_synonym pystr = "nat list"

definition str :: "string \<Rightarrow> pystr" where
  "str s = map of_char s"

definition isspace :: "nat \<Rightarrow> bool" where
  "isspace c = (c \<in> set [9, 10, 11, 12, 13, 28, 29, 30, 31, 32, 133, 160, 5760,
     8192, 8193, 8194, 8195, 8196, 8197, 8198, 8199, 8200, 8201, 8202,
     8232, 8233, 8239, 8287, 12288])"

definition isdigit :: "nat \<Rightarrow> bool" where
  "isdigit c = (48 \<le> c \<and> c \<le> 57)"

definition isword :: "nat \<Rightarrow> bool" where
  "isword c = (isdigit c \<or> (65 \<le> c \<and> c \<le> 90) \<or> (97 \<le> c \<and> c \<le> 122) \<or> c = 95)"

definition lower_cp :: "nat \<Rightarrow> nat" where
  "lower_cp c = (if 65 \<le> c \<and> c \<le> 90 then c + 32 else c)"

definition lower :: "pystr \<Rightarrow> pystr" where
  "lower s = map lower_cp s"

definition strip :: "pystr \<Rightarrow> pystr" where
  "strip s = rev (dropWhile isspace (rev (dropWhile isspace s)))"

fun starts_with :: "pystr \<Rightarrow> pystr \<Rightarrow> bool" where
  "starts_with [] s = True"
| "starts_with (p # ps) [] = False"
| "starts_with (p # ps) (c # cs) = (p = c \<and> starts_with ps cs)"

text \<open>\<open>contains sub s\<close> is Python's \<open>sub in s\<close>.\<close>

fun contains :: "pystr \<Rightarrow> pystr \<Rightarrow> bool" where
  "contains sub [] = (sub = [])"
| "contains sub (c # cs) = (starts_with sub (c # cs) \<or> contains sub cs)"

text \<open>
  \<open>replace old new s\<close> is \<open>s.replace(old, new)\<close> for a non-empty \<open>old\<close>:
  occurrences are replaced from the left and do not overlap. The counter is the
  number of characters of a replaced occurrence still to be skipped.
\<close>

fun replace_from :: "pystr \<Rightarrow> pystr \<Rightarrow> nat \<Rightarrow> pystr \<Rightarrow> pystr" where
  "replace_from old new k [] = []"
| "replace_from old new (Suc k) (c # cs) = replace_from old new k cs"
| "replace_from old new 0 (c # cs) =
     (if starts_with old (c # cs) then new @ replace_from old new (length old - 1) cs
      else c # replace_from old new 0 cs)"

definition replace :: "pystr \<Rightarrow> pystr \<Rightarrow> pystr \<Rightarrow> pystr" where
  "replace old new s = replace_from old new 0 s"

text \<open>\<open>split_on sep s\<close> is \<open>s.split(sep)\<close> for a separator of one character.\<close>

fun split_on :: "nat \<Rightarrow> pystr \<Rightarrow> pystr list" where
  "split_on sep [] = [[]]"
| "split_on sep (c # cs) =
     (if c = sep then [] # split_on sep cs
      else (case split_on sep cs of
              [] \<Rightarrow> [[c]]
            | p # ps \<Rightarrow> (c # p) # ps))"

text \<open>\<open>split_ws s\<close> is \<open>s.split()\<close>: the maximal runs of non-whitespace.\<close>

fun split_from :: "pystr \<Rightarrow> pystr \<Rightarrow> pystr list" where
  "split_from cur [] = (if cur = [] then [] else [cur])"
| "split_from cur (c # cs) =
     (if isspace c then (if cur = [] then split_from [] cs else cur # split_from [] cs)
      else split_from (cur @ [c]) cs)"

definition split_ws :: "pystr \<Rightarrow> pystr list" where
  "split_ws s = split_from [] s"

fun join :: "pystr \<Rightarrow> pystr list \<Rightarrow> pystr" where
  "join sep [] = []"
| "join sep [x] = x"
| "join sep (x # y # ys) = x @ sep @ join sep (y # ys)"

section \<open>Regular expressions\<close>

text \<open>
  The patterns of the repository use character classes, concatenation, ordered
  alternation and the greedy quantifiers \<open>?\<close>, \<open>*\<close>, \<open>+\<close> and \<open>{3,}\<close>. For such a
  pattern Python's backtracking matcher tries the ways to match at a position in a
  fixed order; \<open>matches r s\<close> lists, in that order, what is left of \<open>s\<close> after each
  way of matching \<open>r\<close> at its start. The first element is the match Python reports.
\<close>

datatype re = Eps | Sym "nat \<Rightarrow> bool" | Cat re re | Alt re re | Star re

definition Opt :: "re \<Rightarrow> re" where
  "Opt r = Alt r Eps"

definition Plus :: "re \<Rightarrow> re" where
  "Plus r = Cat r (Star r)"

definition one_of :: "pystr \<Rightarrow> nat \<Rightarrow> bool" where
  "one_of cs c = (c \<in> set cs)"

fun matches :: "re \<Rightarrow> pystr \<Rightarrow> pystr list" where
  "matches Eps s = [s]"
| "matches (Sym p) [] = []"
| "matches (Sym p) (c # cs) = (if p c then [cs] else [])"
| "matches (Cat a b) s = concat (map (matches b) (matches a s))"
| "matches (Alt a b) s = matches a s @ matches b s"
| "matches (Star a) s =
     concat (map (\<lambda>t. if length t < length s then matches (Star a) t else []) (matches a s)) @ [s]"

text \<open>
  \<open>re_search r s\<close> is \<open>re.search(r, s)\<close>: the leftmost position with a match, and
  there the first match in backtracking order. The result is \<open>match.group()\<close>.
\<close>

fun re_search :: "re \<Rightarrow> pystr \<Rightarrow> pystr option" where
  "re_search r [] = (case matches r [] of [] \<Rightarrow> None | t # ts \<Rightarrow> Some [])"
| "re_search r (c # cs) =
     (case matches r (c # cs) of
        [] \<Rightarrow> re_search r cs
      | t # ts \<Rightarrow> Some (take (length (c # cs) - length t) (c # cs)))"

section \<open>Floats and amounts\<close>

text \<open>
  \<open>Num q\<close> is the float Python's \<open>float()\<close> returns for a decimal numeral of exact
  value \<open>q\<close>: the double nearest to \<open>q\<close>. So \<open>Num (123456 / 100)\<close> is the float
  written \<open>1234.56\<close>. \<open>Inf\<close> and \<open>NaN\<close> are the floats \<open>float()\<close> returns for the
  spellings of infinity and of not-a-number.
\<close>

datatype pyfloat = Num rat | Inf bool | NaN

text \<open>
  \<open>value > 0\<close> on a float. A numeral rounds to the float zero when it is at most
  half the least positive double, \<open>2 ^ - 1075\<close>.
\<close>

fun gt_zero :: "pyfloat \<Rightarrow> bool" where
  "gt_zero (Num q) = (1 < q * 2 ^ 1075)"
| "gt_zero (Inf negative) = (\<not> negative)"
| "gt_zero NaN = False"

definition digits_value :: "pystr \<Rightarrow> nat" where
  "digits_value ds = foldl (\<lambda>a d. 10 * a + (d - 48)) 0 ds"

text \<open>
  \<open>float_of m\<close> is \<open>float(m)\<close> for a text \<open>m\<close> matched by the number pattern:
  an optional sign, digits, and an optional point followed by digits.
\<close>

definition float_of :: "pystr \<Rightarrow> pyfloat" where
  "float_of m =
     (let negative = starts_with (str ''-'') m;
          body = (if starts_with (str ''-'') m \<or> starts_with (str ''+'') m then tl m else m);
          whole = takeWhile isdigit body;
          frac = (case dropWhile isdigit body of [] \<Rightarrow> [] | c # f \<Rightarrow> f);
          q = of_nat (digits_value whole) + of_nat (digits_value frac) / 10 ^ length frac
      in Num (if negative then - q else q))"

datatype pyval = PyNone | PyFloat pyfloat | PyStr pystr

text \<open>
  The formatted string of an amount. \<open>Raw s\<close> is the text \<open>s\<close>; \<open>Fixed2 v\<close> is
  \<open>f"{v:,.2f}"\<close>, \<open>Prefixed c v\<close> is \<open>f"{c} {v:,.2f}"\<close> and \<open>Suffixed v c\<close> is
  \<open>f"{v:,.2f} {c}"\<close>; the digits the float formatter prints are not computed.
\<close>

datatype display = Raw pystr | Fixed2 pyfloat | Prefixed pystr pyfloat | Suffixed pyfloat pystr

record amount =
  amount_value :: pyval
  amount_currency :: pystr
  amount_formatted :: display

definition is_number :: "pyval \<Rightarrow> bool" where
  "is_number v = (case v of PyFloat x \<Rightarrow> True | PyNone \<Rightarrow> False | PyStr s \<Rightarrow> False)"

section \<open>config.py\<close>

definition CURRENCY_SYMBOLS :: "pystr list" where
  "CURRENCY_SYMBOLS = [[8364], str ''$'', [163], [165], [8377]]"

section \<open>utils.py: the amount parser\<close>

text \<open>The pattern \<open>[-+]?\d*\.?\d+\<close>.\<close>

definition number_re :: re where
  "number_re =
     Cat (Opt (Sym (one_of (str ''-+''))))
       (Cat (Star (Sym isdigit))
         (Cat (Opt (Sym (one_of (str ''.'')))) (Plus (Sym isdigit))))"

text \<open>
  The decimal-convention step of \<open>clean_currency_text\<close>, applied to the text from
  which the currency symbols and the commas are already removed.
\<close>

definition disambiguate :: "pystr \<Rightarrow> pystr" where
  "disambiguate cleaned =
     (if contains (str ''.'') cleaned \<and> 1 < count_list cleaned 46 then
        (let parts = split_on 46 cleaned in
         if length (last parts) = 2 then concat (butlast parts) @ str ''.'' @ last parts
         else replace (str ''.'') [] cleaned)
      else cleaned)"

definition first_symbol :: "pystr \<Rightarrow> pystr" where
  "first_symbol t =
     (case filter (\<lambda>symbol. contains symbol t) CURRENCY_SYMBOLS of
        [] \<Rightarrow> []
      | symbol # rest \<Rightarrow> symbol)"

definition clean_currency_text :: "pystr \<Rightarrow> pyfloat option \<times> pystr" where
  "clean_currency_text t =
     (if t = [] then (None, [])
      else
        (let currency = first_symbol t;
             cleaned = foldl (\<lambda>c symbol. replace symbol [] c) t CURRENCY_SYMBOLS;
             cleaned = strip (replace (str '','') [] cleaned);
             cleaned = disambiguate cleaned
         in case re_search number_re cleaned of
              Some m \<Rightarrow> (Some (float_of m), currency)
            | None \<Rightarrow> (None, currency)))"

definition parse_amount_with_currency :: "pystr \<Rightarrow> amount" where
  "parse_amount_with_currency t =
     (if t = [] then \<lparr>amount_value = PyStr [], amount_currency = [], amount_formatted = Raw []\<rparr>
      else
        (case clean_currency_text t of
           (Some v, currency) \<Rightarrow>
             \<lparr>amount_value = PyFloat v, amount_currency = currency,
              amount_formatted = (if currency \<noteq> [] then Prefixed currency v else Fixed2 v)\<rparr>
         | (None, currency) \<Rightarrow>
             \<lparr>amount_value = PyStr t, amount_currency = [], amount_formatted = Raw t\<rparr>))"

section \<open>invoice\_processor.py: the amount parser of the single-file pipeline\<close>

text \<open>
  \<open>invoice_processor.py\<close> carries its own copies of the two parser functions. Its
  \<open>clean_currency_text\<close> removes the commas first and then only three of the five
  symbols, and returns the input text where the other returns \<open>None\<close>; its
  \<open>parse_amount_with_currency\<close> puts the currency after the number.
\<close>

definition ip_clean_currency_text :: "pystr \<Rightarrow> pyval \<times> pystr" where
  "ip_clean_currency_text t =
     (if t = [] then (PyNone, [])
      else
        (let currency = first_symbol t;
             cleaned = strip (replace (str ''$'') [] (replace [163] []
                         (replace [8364] [] (replace (str '','') [] t))));
             cleaned = disambiguate cleaned
         in case re_search number_re cleaned of
              Some m \<Rightarrow> (PyFloat (float_of m), currency)
            | None \<Rightarrow> (PyStr t, currency)))"

definition ip_parse_amount_with_currency :: "pystr \<Rightarrow> amount" where
  "ip_parse_amount_with_currency t =
     (if t = [] then \<lparr>amount_value = PyStr [], amount_currency = [], amount_formatted = Raw []\<rparr>
      else
        (case ip_clean_currency_text t of
           (PyFloat v, currency) \<Rightarrow>
             \<lparr>amount_value = PyFloat v, amount_currency = currency,
              amount_formatted = (if currency \<noteq> [] then Suffixed v currency else Fixed2 v)\<rparr>
         | (PyNone, currency) \<Rightarrow>
             \<lparr>amount_value = PyStr t, amount_currency = [], amount_formatted = Raw t\<rparr>
         | (PyStr u, currency) \<Rightarrow>
             \<lparr>amount_value = PyStr t, amount_currency = [], amount_formatted = Raw t\<rparr>))"

section \<open>config.py: header synonyms and summary indicators\<close>

text \<open>
  The four fields a table column can be assigned: the keys \<open>"description"\<close>,
  \<open>"quantity"\<close>, \<open>"unitprice"\<close> and \<open>"amount"\<close> of \<open>HEADER_PATTERNS\<close>, in the order
  of the dictionary.
\<close>

datatype field = FDescription | FQuantity | FUnitPrice | FAmount

definition HEADER_PATTERNS :: "(field \<times> pystr list) list" where
  "HEADER_PATTERNS =
     [(FDescription,
        [str ''description'', str ''service'', str ''item'', str ''details'',
         str ''work performed'', str ''service description'', str ''product'',
         str ''article'', str ''task'', str ''work'', str ''desc'']),
      (FQuantity,
        [str ''qty'', str ''quantity'', str ''hours'', str ''units'', str ''hrs/qty'',
         str ''hrs'', str ''units'', str ''amount'', str ''number'', str ''count'',
         str ''count'', str ''hrs'', str ''hours'', str ''hrs qty'', str ''hrs/qty'']),
      (FUnitPrice,
        [str ''unit price'', str ''price'', str ''rate'', str ''rate/price'',
         str ''unit cost'', str ''price per unit'', str ''cost'', str ''rate'',
         str ''unit rate'', str ''each'', str ''rate price'']),
      (FAmount,
        [str ''amount'', str ''total'', str ''sub total'', str ''line total'',
         str ''extended amount'', str ''sum'', str ''value'', str ''cost'', str ''charge'',
         str ''price'', str ''subtotal'', str ''sub_total''])]"

definition SUMMARY_INDICATORS :: "pystr list" where
  "SUMMARY_INDICATORS =
     [str ''subtotal'', str ''sub total'', str ''sub-total'', str ''sub_total'',
      str ''total'', str ''grand total'', str ''final total'', str ''net total'',
      str ''gross total'', str ''vat'', str ''tax'', str ''vat 19%'', str ''sales tax'',
      str ''discount'', str ''adjustment'', str ''fee discount'', str ''balance'',
      str ''amount due'', str ''total due'', str ''fees and disbursements'',
      str ''gross amount'', str ''net amount'', str ''incl. vat'', str ''including vat'',
      str ''excl. vat'', str ''adjusted fees'', str ''total adjusted'']"

section \<open>utils.py: the header matcher and the row classifier\<close>

text \<open>
  \<open>word_search None pattern s\<close> is
  \<open>re.search(r'\b' + re.escape(pattern) + r'\b', s)\<close>: an occurrence of the
  pattern with a word boundary on each side. A boundary lies between a word
  character and a character that is not one, the two ends of the text counting as
  not one. The first argument is the character before the position searched.
\<close>

definition wordch :: "nat option \<Rightarrow> bool" where
  "wordch c = (case c of None \<Rightarrow> False | Some x \<Rightarrow> isword x)"

definition at_boundary :: "nat option \<Rightarrow> nat option \<Rightarrow> bool" where
  "at_boundary left right = (wordch left \<noteq> wordch right)"

definition head :: "pystr \<Rightarrow> nat option" where
  "head s = (case s of [] \<Rightarrow> None | c # cs \<Rightarrow> Some c)"

definition word_here :: "nat option \<Rightarrow> pystr \<Rightarrow> pystr \<Rightarrow> bool" where
  "word_here left pattern s =
     (starts_with pattern s \<and> at_boundary left (head s)
      \<and> at_boundary (if pattern = [] then left else Some (last pattern))
            (head (drop (length pattern) s)))"

fun word_search :: "nat option \<Rightarrow> pystr \<Rightarrow> pystr \<Rightarrow> bool" where
  "word_search left pattern [] = word_here left pattern []"
| "word_search left pattern (c # cs) =
     (word_here left pattern (c # cs) \<or> word_search (Some c) pattern cs)"

text \<open>\<open>re.sub(r'[^\w\s/]', ' ', s)\<close> followed by \<open>' '.join(s.split())\<close>.\<close>

definition header_clean :: "pystr \<Rightarrow> pystr" where
  "header_clean header_lower =
     join (str '' '')
       (split_ws (map (\<lambda>c. if isword c \<or> isspace c \<or> c = 47 then c else 32) header_lower))"

text \<open>The three tests the matcher makes for a pattern, in its order.\<close>

definition pattern_matches :: "pystr \<Rightarrow> pystr \<Rightarrow> bool" where
  "pattern_matches h pattern =
     (h = pattern \<or> word_search None pattern h \<or> contains pattern h)"

fun first_field :: "pystr \<Rightarrow> (field \<times> pystr list) list \<Rightarrow> field option" where
  "first_field h [] = None"
| "first_field h ((field, patterns) # rest) =
     (if list_ex (pattern_matches h) patterns then Some field else first_field h rest)"

definition match_header_enhanced :: "pystr \<Rightarrow> field option" where
  "match_header_enhanced header_text =
     (if header_text = [] then None
      else first_field (header_clean (strip (lower header_text))) HEADER_PATTERNS)"

definition is_summary_row :: "pystr list \<Rightarrow> bool" where
  "is_summary_row row_data =
     (let row_text_combined = lower (join (str '' '') row_data)
      in list_ex (\<lambda>indicator. contains indicator row_text_combined) SUMMARY_INDICATORS)"

section \<open>textract\_client.py: line items from tables\<close>

text \<open>
  A Python dictionary keeps its keys in the order of their insertion: it is a list
  of pairs with distinct keys. \<open>tables\<close> maps a page to its rows, a row index to
  its cells, a column index to the text of the cell.
\<close>

type_synonym ('k, 'v) dict = "('k \<times> 'v) list"

type_synonym table_rows = "(int, (int, pystr) dict) dict"

datatype error = ValueError

text \<open>\<open>max(xs)\<close> raises \<open>ValueError\<close> on an empty sequence.\<close>

definition py_max :: "int list \<Rightarrow> error + int" where
  "py_max xs = (case xs of [] \<Rightarrow> Inl ValueError | x # rest \<Rightarrow> Inr (foldl max x rest))"

fun collect :: "(error + 'a) list \<Rightarrow> error + 'a list" where
  "collect [] = Inr []"
| "collect (Inl e # rest) = Inl e"
| "collect (Inr x # rest) = (case collect rest of Inl e \<Rightarrow> Inl e | Inr xs \<Rightarrow> Inr (x # xs))"

definition dict_get :: "('k, pystr) dict \<Rightarrow> 'k \<Rightarrow> pystr" where
  "dict_get d k = (case map_of d k of None \<Rightarrow> [] | Some v \<Rightarrow> v)"

text \<open>
  The rows of a page as lists of equal width:
  \<open>max_cols = max((max(r.keys()) for r in rows_dict.values()), default=0)\<close>, then one
  list per row index in ascending order, an absent cell being the empty text. The
  inner \<open>max\<close> has no default: a row without a cell raises.
\<close>

definition materialize :: "table_rows \<Rightarrow> error + pystr list list" where
  "materialize rows_dict =
     (case collect (map (\<lambda>(r, cells). py_max (map fst cells)) rows_dict) of
        Inl e \<Rightarrow> Inl e
      | Inr maxima \<Rightarrow>
          (let max_cols = (case maxima of [] \<Rightarrow> 0 | m # ms \<Rightarrow> foldl max m ms)
           in Inr (map (\<lambda>(r, cells). map (dict_get cells) [1..max_cols])
                     (sort_key fst rows_dict))))"

text \<open>
  A candidate header row: its index, the field matched by each of its cells, and
  the number of cells that matched.
\<close>

type_synonym candidate = "nat \<times> field option list \<times> nat"

definition header_matches :: "pystr list \<Rightarrow> field option list" where
  "header_matches row = map match_header_enhanced row"

definition match_count :: "field option list \<Rightarrow> nat" where
  "match_count hs = length (filter (\<lambda>h. h \<noteq> None) hs)"

text \<open>The first loop: the first four rows, kept when at least two cells match.\<close>

definition potential_headers :: "pystr list list \<Rightarrow> candidate list" where
  "potential_headers rows =
     concat (map (\<lambda>i. let hs = header_matches (rows ! i)
                       in if 2 \<le> match_count hs then [(i, hs, match_count hs)] else [])
               [0..<min 4 (length rows)])"

definition HEADER_WORDS :: "pystr list" where
  "HEADER_WORDS = [str ''service'', str ''description'', str ''rate'', str ''price'',
     str ''amount'', str ''total'', str ''qty'', str ''hours'']"

text \<open>
  The second loop, run when the first finds nothing: the first three rows, kept
  when the row holds a header-like word and at least one cell matches.
\<close>

definition relaxed_headers :: "pystr list list \<Rightarrow> candidate list" where
  "relaxed_headers rows =
     concat (map (\<lambda>(i, row).
                    if list_ex (\<lambda>word. contains word (lower (join (str '' '') row))) HEADER_WORDS
                    then (let hs = header_matches row
                          in if 1 \<le> match_count hs then [(i, hs, match_count hs)] else [])
                    else [])
               (enumerate 0 (take 3 rows)))"

text \<open>
  \<open>max(potential_headers, key=lambda x: (x[2], -x[0]))\<close>: the keys are pairs,
  compared lexicographically, and \<open>max\<close> keeps the first of the greatest elements.
\<close>

definition header_key :: "candidate \<Rightarrow> int \<times> int" where
  "header_key x = (int (snd (snd x)), - int (fst x))"

definition key_less :: "int \<times> int \<Rightarrow> int \<times> int \<Rightarrow> bool" where
  "key_less a b = (fst a < fst b \<or> (fst a = fst b \<and> snd a < snd b))"

definition max_by_key :: "candidate \<Rightarrow> candidate list \<Rightarrow> candidate" where
  "max_by_key x xs = foldl (\<lambda>best y. if key_less (header_key best) (header_key y) then y else best) x xs"

text \<open>
  The candidates \<open>max\<close> chooses from: those of the first loop, or those of the
  second when the first found none. Without a candidate the table is skipped.
\<close>

definition header_candidates :: "pystr list list \<Rightarrow> candidate list" where
  "header_candidates rows =
     (let found = potential_headers rows
      in if found = [] then relaxed_headers rows else found)"

definition select_header :: "pystr list list \<Rightarrow> candidate option" where
  "select_header rows =
     (case header_candidates rows of [] \<Rightarrow> None | x # xs \<Rightarrow> Some (max_by_key x xs))"

text \<open>
  A line item is a dictionary with a subset of the keys \<open>Description\<close>,
  \<open>Quantity\<close>, \<open>UnitPrice\<close> and \<open>Amount\<close>: an absent key is \<open>None\<close>.
\<close>

record line_item =
  Description :: "pystr option"
  Quantity :: "pyfloat option"
  UnitPrice :: "amount option"
  Amount :: "amount option"

definition empty_item :: line_item where
  "empty_item = \<lparr>Description = None, Quantity = None, UnitPrice = None, Amount = None\<rparr>"

text \<open>
  \<open>float(s)\<close> in the quantity branch. It is reached only when the amount parser
  found no number in \<open>s\<close>, that is when \<open>s\<close> holds no decimal digit (lemma
  \<open>unparsed_has_no_digit\<close>); on such a text \<open>float\<close> succeeds exactly on the
  spellings of infinity and of not-a-number, in any case and with an optional sign.
\<close>

definition float_of_text :: "pystr \<Rightarrow> pyfloat option" where
  "float_of_text s =
     (let t = lower (strip s);
          negative = starts_with (str ''-'') t;
          body = (if starts_with (str ''-'') t \<or> starts_with (str ''+'') t then tl t else t)
      in if body = str ''inf'' \<or> body = str ''infinity'' then Some (Inf negative)
         else if body = str ''nan'' then Some NaN
         else None)"

text \<open>
  The quantity branch: the number the amount parser finds, or else \<open>float\<close> of
  the cell; \<open>None\<close> when both fail and the quantity is left as it was.
\<close>

definition quantity_of :: "pystr \<Rightarrow> pyfloat option" where
  "quantity_of cell_value =
     (case amount_value (parse_amount_with_currency cell_value) of
        PyFloat v \<Rightarrow> Some v
      | PyNone \<Rightarrow> float_of_text cell_value
      | PyStr u \<Rightarrow> float_of_text cell_value)"

definition has_summary_term :: "pystr \<Rightarrow> bool" where
  "has_summary_term desc_lower =
     list_ex (\<lambda>indicator. contains indicator desc_lower) SUMMARY_INDICATORS"

definition header_at :: "field option list \<Rightarrow> nat \<Rightarrow> field option" where
  "header_at headers i = (if i < length headers then headers ! i else None)"

text \<open>
  The loop over the cells of a data row. The state is the line item built so far
  and the flag \<open>has_meaningful_data\<close>. A description that holds a summary term
  leaves the loop with the flag cleared.
\<close>

fun process_cells ::
  "field option list \<Rightarrow> (nat \<times> pystr) list \<Rightarrow> line_item \<times> bool \<Rightarrow> line_item \<times> bool" where
  "process_cells headers [] state = state"
| "process_cells headers ((i, cell) # rest) (item, meaningful) =
     (case header_at headers i of
        None \<Rightarrow> process_cells headers rest (item, meaningful)
      | Some field \<Rightarrow>
          (let cell_value = strip cell
           in if cell_value = [] then process_cells headers rest (item, meaningful)
              else
                (case field of
                   FDescription \<Rightarrow>
                     if has_summary_term (lower cell_value) then (item, False)
                     else process_cells headers rest (item\<lparr>Description := Some cell_value\<rparr>, True)
                 | FQuantity \<Rightarrow>
                     (case quantity_of cell_value of
                        Some v \<Rightarrow> process_cells headers rest (item\<lparr>Quantity := Some v\<rparr>, True)
                      | None \<Rightarrow> process_cells headers rest (item, meaningful))
                 | FUnitPrice \<Rightarrow>
                     (let price_info = parse_amount_with_currency cell_value
                      in process_cells headers rest
                           (item\<lparr>UnitPrice := Some price_info\<rparr>,
                            meaningful \<or> is_number (amount_value price_info)))
                 | FAmount \<Rightarrow>
                     (let amount_info = parse_amount_with_currency cell_value
                      in process_cells headers rest
                           (item\<lparr>Amount := Some amount_info\<rparr>,
                            meaningful \<or> is_number (amount_value amount_info))))))"

text \<open>
  One data row: skipped when every cell is blank or when it is a summary row;
  otherwise the line item of its cells, kept when the flag is set.
\<close>

definition row_item :: "field option list \<Rightarrow> pystr list \<Rightarrow> line_item option" where
  "row_item headers row =
     (if \<not> list_ex (\<lambda>cell. strip cell \<noteq> []) row then None
      else if is_summary_row row then None
      else (case process_cells headers (enumerate 0 row) (empty_item, False) of
              (item, meaningful) \<Rightarrow> if meaningful then Some item else None))"

definition rows_items :: "pystr list list \<Rightarrow> line_item list" where
  "rows_items rows =
     (if length rows < 2 then []
      else
        (case select_header rows of
           None \<Rightarrow> []
         | Some (header_row_idx, headers, n) \<Rightarrow>
             List.map_filter (row_item headers) (drop (header_row_idx + 1) rows)))"

definition page_items :: "table_rows \<Rightarrow> error + line_item list" where
  "page_items rows_dict =
     (if rows_dict = [] then Inr []
      else (case materialize rows_dict of
              Inl e \<Rightarrow> Inl e
            | Inr rows \<Rightarrow> Inr (rows_items rows)))"

fun extract_line_items_from_tables :: "(int, table_rows) dict \<Rightarrow> error + line_item list" where
  "extract_line_items_from_tables [] = Inr []"
| "extract_line_items_from_tables ((page, rows_dict) # rest) =
     (case page_items rows_dict of
        Inl e \<Rightarrow> Inl e
      | Inr items \<Rightarrow>
          (case extract_line_items_from_tables rest of
             Inl e \<Rightarrow> Inl e
           | Inr others \<Rightarrow> Inr (items @ others)))"

section \<open>config.py: keywords and patterns of the field resolvers\<close>

definition TOTAL_KEYWORDS :: "(pystr \<times> int) list" where
  "TOTAL_KEYWORDS =
     [(str ''total'', 1), (str ''subtotal'', 2), (str ''amount due'', 8),
      (str ''invoice total'', 7), (str ''grand total'', 9), (str ''final total'', 10),
      (str ''total due'', 8), (str ''gross total'', 11), (str ''gross amount'', 12),
      (str ''total amount'', 6), (str ''net amount'', 3), (str ''total incl'', 13),
      (str ''incl. vat'', 14), (str ''including vat'', 14),
      (str ''total fees and disbursements'', 15), (str ''balance due'', 8),
      (str ''amount payable'', 7)]"

definition DATE_KEYWORDS :: "pystr list" where
  "DATE_KEYWORDS = [str ''invoice date'', str ''date'', str ''bill date'', str ''issued'']"

definition PAYMENT_TERMS_KEYWORDS :: "pystr list" where
  "PAYMENT_TERMS_KEYWORDS = [str ''payment'', str ''terms'', str ''due'']"

text \<open>
  The patterns are searched with \<open>re.IGNORECASE\<close>: \<open>ci c\<close> matches the character
  \<open>c\<close> in either case, \<open>lit\<close> a literal text, \<open>phrase\<close> words separated by \<open>\s+\<close>.
  Every pattern of the repository ends in its only group, so a pattern is the pair of
  what precedes the group and the group.
\<close>

definition ci :: "nat \<Rightarrow> re" where
  "ci c = Sym (\<lambda>x. lower_cp x = lower_cp c)"

definition lit :: "string \<Rightarrow> re" where
  "lit s = foldr (\<lambda>c r. Cat (ci (of_char c)) r) s Eps"

definition seq :: "re list \<Rightarrow> re" where
  "seq rs = foldr Cat rs Eps"

definition ws :: re where
  "ws = Sym isspace"

fun phrase :: "string list \<Rightarrow> re" where
  "phrase [] = Eps"
| "phrase [w] = lit w"
| "phrase (w # v # vs) = Cat (lit w) (Cat (Plus ws) (phrase (v # vs)))"

definition at_least3 :: "re \<Rightarrow> re" where
  "at_least3 r = Cat r (Cat r (Cat r (Star r)))"

text \<open>The class \<open>[A-Z0-9\-]\<close>, read without regard to case.\<close>

definition idchar :: re where
  "idchar = Sym (\<lambda>x. isdigit x \<or> (97 \<le> lower_cp x \<and> lower_cp x \<le> 122) \<or> x = 45)"

text \<open>The alternation \<open>(?:number|no|#)\<close> and the classes \<open>[\s:]\<close> and \<open>[\s\-]\<close>.\<close>

definition number_word :: re where
  "number_word = Alt (lit ''number'') (Alt (lit ''no'') (lit ''#''))"

definition space_or_colon :: re where
  "space_or_colon = Sym (\<lambda>x. isspace x \<or> x = 58)"

definition space_or_dash :: re where
  "space_or_dash = Sym (\<lambda>x. isspace x \<or> x = 45)"

definition INVOICE_NUMBER_PATTERNS :: "(re \<times> re) list" where
  "INVOICE_NUMBER_PATTERNS =
     [(seq [lit ''invoice'', Star ws, number_word, Star space_or_colon], Plus idchar),
      (seq [lit ''inv'', Star space_or_dash, number_word, Star space_or_colon], Plus idchar),
      (seq [lit ''invoice'', Plus space_or_colon], at_least3 idchar),
      (lit ''#'', at_least3 idchar)]"

text \<open>
  The group \<open>([\<euro>$\<pounds>\<yen>\<rupee>]?\s*[0-9,]+\.?\d*)\<close> of the total patterns, and \<open>[^0-9]*\<close>.
\<close>

definition amount_group :: re where
  "amount_group =
     seq [Opt (Sym (one_of [8364, 36, 163, 165, 8377])), Star ws,
          Plus (Sym (\<lambda>x. isdigit x \<or> x = 44)), Opt (Sym (one_of (str ''.''))),
          Star (Sym isdigit)]"

definition non_digits :: re where
  "non_digits = Star (Sym (\<lambda>x. \<not> isdigit x))"

definition TOTAL_PATTERNS :: "((re \<times> re) \<times> int) list" where
  "TOTAL_PATTERNS =
     [((Cat (phrase [''total'', ''fees'', ''and'', ''disbursements'']) non_digits, amount_group), 20),
      ((Cat (phrase [''gross'', ''amount'', ''incl'']) non_digits, amount_group), 18),
      ((Cat (phrase [''grand'', ''total'']) non_digits, amount_group), 15),
      ((Cat (phrase [''final'', ''total'']) non_digits, amount_group), 15),
      ((Cat (phrase [''total'', ''due'']) non_digits, amount_group), 12),
      ((Cat (phrase [''amount'', ''due'']) non_digits, amount_group), 12),
      ((Cat (phrase [''invoice'', ''total'']) non_digits, amount_group), 10)]"

section \<open>Searching a pattern with a group\<close>

text \<open>
  \<open>match_group prefix grp s\<close> matches the pattern at the start of \<open>s\<close>: the
  backtracking matcher takes the first way of matching the prefix after which the
  group matches, and there the first way of matching the group. The result is
  \<open>match.group(1)\<close> and what follows the match.
\<close>

definition match_group :: "re \<Rightarrow> re \<Rightarrow> pystr \<Rightarrow> (pystr \<times> pystr) option" where
  "match_group prefix grp s =
     (case filter (\<lambda>t. matches grp t \<noteq> []) (matches prefix s) of
        [] \<Rightarrow> None
      | t # ts \<Rightarrow>
          (case matches grp t of
             [] \<Rightarrow> None
           | u # us \<Rightarrow> Some (take (length t - length u) t, u)))"

text \<open>\<open>re.search(pattern, s, re.IGNORECASE)\<close>, giving \<open>match.group(1)\<close>.\<close>

fun search_group :: "re \<Rightarrow> re \<Rightarrow> pystr \<Rightarrow> pystr option" where
  "search_group prefix grp [] = map_option fst (match_group prefix grp [])"
| "search_group prefix grp (c # cs) =
     (case match_group prefix grp (c # cs) of
        Some (found, rest) \<Rightarrow> Some found
      | None \<Rightarrow> search_group prefix grp cs)"

text \<open>
  \<open>re.finditer(pattern, s, re.IGNORECASE)\<close>, giving \<open>match.group(1)\<close> of each match:
  the matches do not overlap, the search going on where the last match ended. The
  counter is the number of characters of the last match still to be skipped.
\<close>

fun finditer_from :: "re \<Rightarrow> re \<Rightarrow> nat \<Rightarrow> pystr \<Rightarrow> pystr list" where
  "finditer_from prefix grp k [] =
     (case match_group prefix grp [] of None \<Rightarrow> [] | Some (found, rest) \<Rightarrow> [found])"
| "finditer_from prefix grp (Suc k) (c # cs) = finditer_from prefix grp k cs"
| "finditer_from prefix grp 0 (c # cs) =
     (case match_group prefix grp (c # cs) of
        None \<Rightarrow> finditer_from prefix grp 0 cs
      | Some (found, rest) \<Rightarrow>
          found # finditer_from prefix grp (length (c # cs) - length rest - 1) cs)"

definition finditer :: "re \<Rightarrow> re \<Rightarrow> pystr \<Rightarrow> pystr list" where
  "finditer prefix grp s = finditer_from prefix grp 0 s"

section \<open>utils.py: the field resolvers\<close>

definition INVOICE_NUMBER_TERMS :: "pystr list" where
  "INVOICE_NUMBER_TERMS = [str ''invoice number'', str ''invoice no'', str ''invoice #'',
     str ''inv number'', str ''inv no'']"

definition contains_any :: "pystr list \<Rightarrow> pystr \<Rightarrow> bool" where
  "contains_any terms s = list_ex (\<lambda>word. contains word s) terms"

definition find_invoice_number :: "(pystr, pystr) dict \<Rightarrow> pystr \<Rightarrow> pystr option" where
  "find_invoice_number kv_pairs all_text =
     (case filter (\<lambda>(k, v). contains_any INVOICE_NUMBER_TERMS k \<and> strip v \<noteq> []) kv_pairs of
        (k, v) # rest \<Rightarrow> Some (strip v)
      | [] \<Rightarrow>
          (case List.map_filter (\<lambda>(prefix, grp). search_group prefix grp all_text)
                  INVOICE_NUMBER_PATTERNS of
             [] \<Rightarrow> None
           | found # rest \<Rightarrow> Some (strip found)))"

text \<open>\<open>isinstance(value, (int, float)) and value > 0\<close>.\<close>

definition positive_number :: "pyval \<Rightarrow> bool" where
  "positive_number v = (case v of PyFloat x \<Rightarrow> gt_zero x | PyNone \<Rightarrow> False | PyStr s \<Rightarrow> False)"

text \<open>
  The running best of \<open>find_invoice_total\<close>: \<open>best_total\<close> and \<open>best_priority\<close>.
  (\<open>best_source\<close> only feeds the debug line and is left out.)
\<close>

type_synonym best = "amount option \<times> int"

definition INCLUSIVE_TERMS :: "pystr list" where
  "INCLUSIVE_TERMS = [str ''incl'', str ''including'', str ''with vat'', str ''with tax'']"

text \<open>The body of the two loops over the key-value pairs and the keywords.\<close>

definition kv_step :: "pystr \<times> pystr \<Rightarrow> best \<Rightarrow> pystr \<times> int \<Rightarrow> best" where
  "kv_step kv state kw =
     (let k_lower = strip (lower (fst kv));
          keyword = fst kw;
          amount_info = parse_amount_with_currency (snd kv);
          actual_priority = snd kw
            + (if k_lower = keyword \<or> strip (replace (str '':'') [] k_lower) = keyword then 5 else 0)
            + (if contains_any INCLUSIVE_TERMS k_lower then 3 else 0)
      in if contains keyword k_lower \<and> positive_number (amount_value amount_info)
            \<and> snd state < actual_priority
         then (Some amount_info, actual_priority)
         else state)"

definition kv_tier :: "(pystr, pystr) dict \<Rightarrow> best" where
  "kv_tier kv_pairs =
     foldl (\<lambda>state kv. foldl (kv_step kv) state TOTAL_KEYWORDS) (None, 0) kv_pairs"

text \<open>The bonus of a table total, an \<open>if\<close>/\<open>elif\<close> chain on its lowered text.\<close>

definition table_bonus :: "pystr \<Rightarrow> int" where
  "table_bonus total_text_lower =
     (if contains (str ''fees and disbursements'') total_text_lower then 10
      else if contains (str ''gross'') total_text_lower
              \<and> (contains (str ''incl'') total_text_lower \<or> contains (str ''vat'') total_text_lower)
           then 8
      else if contains (str ''grand total'') total_text_lower then 7
      else if contains (str ''final'') total_text_lower then 6
      else 0)"

definition table_candidates :: "(pystr, pystr) dict \<Rightarrow> (amount \<times> int) list" where
  "table_candidates table_totals =
     concat (map (\<lambda>(total_text, v).
                    concat (map (\<lambda>(keyword, priority).
                                   if contains keyword (lower total_text)
                                      \<and> positive_number (amount_value (parse_amount_with_currency v))
                                   then [(parse_amount_with_currency v,
                                          priority + table_bonus (lower total_text))]
                                   else [])
                              TOTAL_KEYWORDS))
               table_totals)"

text \<open>
  \<open>table_candidates.sort(key=lambda x: x[1], reverse=True)\<close> is stable: candidates of
  equal priority keep their order. The first of the sorted list replaces the running
  best when its priority is strictly greater.
\<close>

definition table_tier :: "(amount \<times> int) list \<Rightarrow> best \<Rightarrow> best" where
  "table_tier candidates state =
     (case sort_key (\<lambda>x. - snd x) candidates of
        [] \<Rightarrow> state
      | best_table # rest \<Rightarrow>
          if snd state < snd best_table then (Some (fst best_table), snd best_table) else state)"

definition regex_step :: "int \<Rightarrow> best \<Rightarrow> pystr \<Rightarrow> best" where
  "regex_step priority state found =
     (let amount_info = parse_amount_with_currency found
      in if positive_number (amount_value amount_info) \<and> snd state < priority
         then (Some amount_info, priority)
         else state)"

definition regex_tier :: "pystr \<Rightarrow> best \<Rightarrow> best" where
  "regex_tier all_text state =
     (if snd state < 5
      then foldl (\<lambda>st (pattern, priority).
                    foldl (regex_step priority) st (finditer (fst pattern) (snd pattern) all_text))
             state TOTAL_PATTERNS
      else state)"

definition no_total :: amount where
  "no_total = \<lparr>amount_value = PyNone, amount_currency = [], amount_formatted = Raw []\<rparr>"

definition find_invoice_total ::
  "(pystr, pystr) dict \<Rightarrow> (pystr, pystr) dict \<Rightarrow> pystr \<Rightarrow> amount" where
  "find_invoice_total kv_pairs table_totals all_text =
     (case fst (regex_tier all_text (table_tier (table_candidates table_totals) (kv_tier kv_pairs))) of
        None \<Rightarrow> no_total
      | Some best_total \<Rightarrow> best_total)"

section \<open>textract\_client.py: parse\_extracted\_data\<close>

text \<open>
  The argument \<open>results\<close>: the layout texts (\<open>results['layout']['titles']\<close> and
  so on, in the order they are joined), the form fields as pairs of key and
  value, the tables as lists of rows, and the query results. The confidence of a
  layout element, of a form field and of a table is never read and is left out; the
  confidence of a query result is kept.
\<close>

record query_result =
  query_text :: pystr
  query_alias :: pystr
  query_answer :: pystr
  query_confidence :: rat

record results =
  layout_titles :: "pystr list"
  layout_headers :: "pystr list"
  layout_section_headers :: "pystr list"
  layout_paragraphs :: "pystr list"
  layout_lists :: "pystr list"
  forms :: "(pystr \<times> pystr) list"
  tables :: "pystr list list list"
  queries :: "query_result list"

record invoice =
  InvoiceNumber :: "pystr option"
  InvoiceDate :: "pystr option"
  LineItems :: "line_item list"
  InvoiceTotal :: amount
  PaymentTerms :: "pystr option"

definition build_kv_pairs :: "(pystr \<times> pystr) list \<Rightarrow> (pystr, pystr) dict" where
  "build_kv_pairs fs =
     foldl (\<lambda>kv_pairs (k, v).
              if strip (lower k) \<noteq> [] \<and> strip v \<noteq> []
              then AList.update (strip (lower k)) (strip v) kv_pairs
              else kv_pairs)
       [] fs"

definition build_all_text :: "results \<Rightarrow> (pystr, pystr) dict \<Rightarrow> pystr" where
  "build_all_text r kv_pairs =
     join (str '' '')
       (layout_titles r @ layout_headers r @ layout_section_headers r @ layout_paragraphs r
        @ layout_lists r
        @ map (\<lambda>(k, v). k @ str '' '' @ v) kv_pairs
        @ concat (map (map (join (str '' ''))) (tables r)))"

definition number_from_one :: "'a list \<Rightarrow> (int \<times> 'a) list" where
  "number_from_one xs = map (\<lambda>(i, x). (int i, x)) (enumerate 1 xs)"

definition build_tables_dict :: "pystr list list list \<Rightarrow> (int, table_rows) dict" where
  "build_tables_dict ts =
     number_from_one (map (\<lambda>rows. number_from_one (map number_from_one rows)) ts)"

definition build_table_totals :: "(int, table_rows) dict \<Rightarrow> (pystr, pystr) dict" where
  "build_table_totals tables_dict =
     foldl (\<lambda>table_totals row_values.
              if contains (str ''total'') (lower (join (str '' '') row_values))
              then AList.update (lower (join (str '' '') row_values)) (join (str '' '') row_values)
                     table_totals
              else table_totals)
       [] (concat (map (\<lambda>(page, rows). map (\<lambda>(row_idx, row_data). map snd row_data) rows)
                     tables_dict))"

definition find_invoice_date :: "(pystr, pystr) dict \<Rightarrow> pystr option" where
  "find_invoice_date kv_pairs =
     (case filter (\<lambda>(k, v). contains_any DATE_KEYWORDS k \<and> strip v \<noteq> []) kv_pairs of
        [] \<Rightarrow> None
      | (k, v) # rest \<Rightarrow> Some (strip v))"

definition find_payment_terms :: "(pystr, pystr) dict \<Rightarrow> pystr option" where
  "find_payment_terms kv_pairs =
     (case filter (\<lambda>(k, v). contains_any PAYMENT_TERMS_KEYWORDS k \<and> 20 < length v) kv_pairs of
        [] \<Rightarrow> None
      | (k, v) # rest \<Rightarrow> Some (strip v))"

definition Q_NUMBER :: pystr where
  "Q_NUMBER = str ''What is the invoice number?''"

definition Q_DATE :: pystr where
  "Q_DATE = str ''What is the invoice date?''"

definition Q_TOTAL :: pystr where
  "Q_TOTAL = str ''What is the total amount?''"

definition Q_TERMS :: pystr where
  "Q_TERMS = str ''What is the payment terms?''"

text \<open>The body of the loop over the query results.\<close>

definition apply_query :: "invoice \<Rightarrow> query_result \<Rightarrow> invoice" where
  "apply_query parsed q =
     (let q_text = query_text q; answer = query_answer q
      in if answer = [] then parsed
         else if q_text = Q_TOTAL then
           (let amount_info = parse_amount_with_currency answer
            in if is_number (amount_value amount_info)
               then parsed\<lparr>InvoiceTotal := amount_info\<rparr> else parsed)
         else if q_text = Q_NUMBER then parsed\<lparr>InvoiceNumber := Some answer\<rparr>
         else if q_text = Q_DATE then parsed\<lparr>InvoiceDate := Some answer\<rparr>
         else if q_text = Q_TERMS then parsed\<lparr>PaymentTerms := Some answer\<rparr>
         else parsed)"

text \<open>The record before the queries are applied.\<close>

definition heuristic_data :: "results \<Rightarrow> error + invoice" where
  "heuristic_data r =
     (let kv_pairs = build_kv_pairs (forms r);
          all_text = build_all_text r kv_pairs;
          tables_dict = build_tables_dict (tables r);
          table_totals = build_table_totals tables_dict
      in case extract_line_items_from_tables tables_dict of
           Inl e \<Rightarrow> Inl e
         | Inr items \<Rightarrow>
             Inr \<lparr>InvoiceNumber = find_invoice_number kv_pairs all_text,
                  InvoiceDate = find_invoice_date kv_pairs,
                  LineItems = items,
                  InvoiceTotal = find_invoice_total kv_pairs table_totals all_text,
                  PaymentTerms = find_payment_terms kv_pairs\<rparr>)"

definition parse_extracted_data :: "results \<Rightarrow> error + invoice" where
  "parse_extracted_data r =
     (case heuristic_data r of
        Inl e \<Rightarrow> Inl e
      | Inr parsed \<Rightarrow> Inr (foldl apply_query parsed (queries r)))"

section \<open>textract\_client.py: the rows extract\_tables builds\<close>

text \<open>
  \<open>extract_tables\<close> puts the cells of a table into a dictionary by row and column
  index, and lists each row over the columns 1 to \<open>max_col\<close>, the largest column
  index met (or 0). A cell is given with its text already resolved.
\<close>

record cell =
  RowIndex :: int
  ColumnIndex :: int
  cell_text :: pystr



section \<open>The scenarios of the specification\<close>

text \<open>The table of the end-to-end scenario: a header, a data row and a summary row.\<close>

definition header_row :: "pystr list" where
  "header_row = [str ''Description'', str ''Qty'', str ''Rate'', str ''Amount'']"

definition data_row :: "pystr list" where
  "data_row = [str ''Consulting'', str ''10'', str ''100.00'', str ''1,000.00'']"

definition summary_row :: "pystr list" where
  "summary_row = [str ''Subtotal'', [], [], str ''1,000.00'']"

definition scenario_tables :: "(int, table_rows) dict" where
  "scenario_tables =
     [(1, [(1, [(1, str ''Description''), (2, str ''Qty''), (3, str ''Rate''), (4, str ''Amount'')]),
           (2, [(1, str ''Consulting''), (2, str ''10''), (3, str ''100.00''), (4, str ''1,000.00'')]),
           (3, [(1, str ''Subtotal''), (2, []), (3, []), (4, str ''1,000.00'')])])]"

text \<open>
  The total-priority scenario: one key-value pair, and one table total whose text is
  its own value.
\<close>

definition total_kv_pairs :: "(pystr, pystr) dict" where
  "total_kv_pairs = [(str ''grand total'', str ''$500.00'')]"

definition total_table_totals :: "(pystr, pystr) dict" where
  "total_table_totals =
     [(str ''total fees and disbursements: $1000.00'', str ''total fees and disbursements: $1000.00'')]"

text \<open>The amount the parser returns for a number \<open>q\<close> written with a dollar sign.\<close>

definition dollars :: "rat \<Rightarrow> amount" where
  "dollars q = \<lparr>amount_value = PyFloat (Num q), amount_currency = str ''$'',
                amount_formatted = Prefixed (str ''$'') (Num q)\<rparr>"

text \<open>
  The query-override scenario: the form field gives the invoice number INV-0001 and
  the query is answered INV-9999.
\<close>

definition query_results :: results where
  "query_results =
     \<lparr>layout_titles = [], layout_headers = [], layout_section_headers = [],
      layout_paragraphs = [], layout_lists = [],
      forms = [(str ''Invoice Number'', str ''INV-0001'')],
      tables = [],
      queries = [\<lparr>query_text = Q_NUMBER, query_alias = str ''Q1'',
                  query_answer = str ''INV-9999'', query_confidence = 12\<rparr>]\<rparr>"

text \<open>A document without any element, and the record of defaults.\<close>

definition empty_results :: results where
  "empty_results =
     \<lparr>layout_titles = [], layout_headers = [], layout_section_headers = [],
      layout_paragraphs = [], layout_lists = [], forms = [], tables = [], queries = []\<rparr>"

definition default_invoice :: invoice where
  "default_invoice =
     \<lparr>InvoiceNumber = None, InvoiceDate = None, LineItems = [], InvoiceTotal = no_total,
      PaymentTerms = None\<rparr>"


text \<open>
  Two results for one question: the invoice number is answered A-1 by the first
  result and B-2 by the second.
\<close>

definition two_answers :: results where
  "two_answers =
     empty_results\<lparr>queries :=
       [\<lparr>query_text = Q_NUMBER, query_alias = str ''Q1'', query_answer = str ''A-1'',
           query_confidence = 99\<rparr>,
        \<lparr>query_text = Q_NUMBER, query_alias = str ''Q1'', query_answer = str ''B-2'',
           query_confidence = 10\<rparr>]\<rparr>"



text \<open>Rows for the header tie-break: rows 1 and 2 both have two matching cells.\<close>

definition tie_rows :: "pystr list list" where
  "tie_rows = [[str ''A'', str ''B''], [str ''Qty'', str ''Rate''], [str ''Qty'', str ''Rate'']]"

text \<open>A data row under a header that assigns a field to several columns.\<close>

definition dup_headers :: "field option list" where
  "dup_headers = [Some FQuantity, Some FQuantity, Some FQuantity,
                  Some FUnitPrice, Some FUnitPrice, Some FUnitPrice]"

definition dup_row :: "pystr list" where
  "dup_row = [str ''5'', str ''7'', str ''n/a'', str ''1.00'', str ''2.00'', str '' '']"

section \<open>Notions used in the statements\<close>

text \<open>
  \<open>assigned_cells f headers cells\<close>: the non-blank cells, stripped, of the columns
  the header row assigns to the field \<open>f\<close>, from left to right. The cells come
  with their column index, as \<open>enumerate(row)\<close> gives them.
\<close>

definition assigned_cells :: "field \<Rightarrow> field option list \<Rightarrow> (nat \<times> pystr) list \<Rightarrow> pystr list" where
  "assigned_cells f headers cells =
     map (\<lambda>(i, cell). strip cell)
       (filter (\<lambda>(i, cell). header_at headers i = Some f \<and> strip cell \<noteq> []) cells)"

definition last_option :: "'a list \<Rightarrow> 'a option" where
  "last_option xs = (if xs = [] then None else Some (last xs))"

text \<open>
  \<open>answers_to question qs\<close>: the non-empty answers that the results \<open>qs\<close> give
  to the question, in the order of the results. An answer is numeric when the
  amount parser finds a number in it.
\<close>

definition answers_to :: "pystr \<Rightarrow> query_result list \<Rightarrow> pystr list" where
  "answers_to question qs =
     map query_answer (filter (\<lambda>q. query_text q = question \<and> query_answer q \<noteq> []) qs)"

definition numeric_answer :: "pystr \<Rightarrow> bool" where
  "numeric_answer answer = is_number (amount_value (parse_amount_with_currency answer))"


section \<open>Evaluation\<close>

lemmas text_defs = str_def isspace_def isdigit_def isword_def lower_cp_def lower_def strip_def
  replace_def split_ws_def

lemmas re_defs = Opt_def Plus_def one_of_def

lemmas parser_defs = digits_value_def float_of_def is_number_def CURRENCY_SYMBOLS_def
  number_re_def disambiguate_def first_symbol_def clean_currency_text_def
  parse_amount_with_currency_def ip_clean_currency_text_def ip_parse_amount_with_currency_def
  Let_def

section \<open>The amount parser on the documented examples\<close>

text \<open>
  Claim C1. The claim: \<open>"1.234,56"\<close> yields 1234.56, \<open>"1.234.567"\<close> yields 1234567
  and \<open>"45.00"\<close> yields 45.00, the commas being removed before the dots are
  disambiguated. The last two hold. For \<open>"1.234,56"\<close> the removal of the comma
  leaves \<open>"1.23456"\<close>, a text with a single dot, which the disambiguation does not
  touch: both parsers return the float 1.23456, against the docstring of
  \<open>clean_currency_text\<close> (\<open>1.234,56 -> 1234.56\<close>).
\<close>

theorem clean_currency_text_decimal_examples:
  "clean_currency_text (str ''1.234,56'') = (Some (Num (123456 / 100000)), [])
   \<and> clean_currency_text (str ''1.234.567'') = (Some (Num 1234567), [])
   \<and> clean_currency_text (str ''45.00'') = (Some (Num 45), [])
   \<and> ip_clean_currency_text (str ''1.234,56'') = (PyFloat (Num (123456 / 100000)), [])
   \<and> ip_clean_currency_text (str ''1.234.567'') = (PyFloat (Num 1234567), [])
   \<and> ip_clean_currency_text (str ''45.00'') = (PyFloat (Num 45), [])"
  by (simp add: text_defs re_defs parser_defs)

text \<open>
  Claim C3. The claim: \<open>"\<euro> 1.250,00"\<close> yields the currency \<open>"\<euro>"\<close> and the value
  1250.0. The currency is found, but the value is 1.25: removing the comma leaves
  \<open>"1.25000"\<close>, which has one dot and is read as it stands. The text is the euro
  sign, code point 8364, followed by \<open>" 1.250,00"\<close>.
\<close>

theorem clean_currency_text_euro_example:
  "clean_currency_text (8364 # str '' 1.250,00'') = (Some (Num (5 / 4)), [8364])
   \<and> amount_value (parse_amount_with_currency (8364 # str '' 1.250,00'')) = PyFloat (Num (5 / 4))
   \<and> amount_currency (parse_amount_with_currency (8364 # str '' 1.250,00'')) = [8364]
   \<and> ip_clean_currency_text (8364 # str '' 1.250,00'') = (PyFloat (Num (5 / 4)), [8364])"
  by (simp add: text_defs re_defs parser_defs)

section \<open>The amount parser on texts without a number\<close>

lemma parse_amount_unparsed:
  assumes "t \<noteq> []" and "fst (clean_currency_text t) = None"
  shows "parse_amount_with_currency t =
           \<lparr>amount_value = PyStr t, amount_currency = [], amount_formatted = Raw t\<rparr>"
proof -
  obtain currency where "clean_currency_text t = (None, currency)"
    using assms(2) by (cases "clean_currency_text t") simp
  with assms(1) show ?thesis
    by (simp add: parse_amount_with_currency_def)
qed

lemma ip_parse_amount_unparsed:
  assumes "t \<noteq> []" and "\<not> is_number (fst (ip_clean_currency_text t))"
  shows "ip_parse_amount_with_currency t =
           \<lparr>amount_value = PyStr t, amount_currency = [], amount_formatted = Raw t\<rparr>"
proof -
  obtain v currency where vc: "ip_clean_currency_text t = (v, currency)"
    by (cases "ip_clean_currency_text t")
  with assms(2) have "\<not> is_number v" by simp
  with vc assms(1) show ?thesis
    by (cases v) (simp_all add: ip_parse_amount_with_currency_def is_number_def)
qed

text \<open>
  Claim C4, as the specification states it: for a non-empty text from which no
  number is extracted, the currency of the result is the currency symbol detected in
  the text. It fails on \<open>"$ n/a"\<close>: the symbol \<open>$\<close> is detected by
  \<open>clean_currency_text\<close>, and the amount carries the empty currency.
\<close>

theorem parse_amount_unparsed_currency_counterexample:
  "str ''$ n/a'' \<noteq> []
   \<and> clean_currency_text (str ''$ n/a'') = (None, str ''$'')
   \<and> amount_currency (parse_amount_with_currency (str ''$ n/a'')) \<noteq> str ''$''
   \<and> amount_currency (ip_parse_amount_with_currency (str ''$ n/a'')) \<noteq> str ''$''"
  by (simp add: text_defs re_defs parser_defs)

text \<open>
  Claim C4, amended: for every non-empty text from which no number is extracted,
  the value of the result is the input text unchanged (not \<open>None\<close>), its currency
  is the empty string, whatever symbol the text holds, and its formatted string is
  the input text. This holds for the parser of \<open>utils.py\<close> and for the one of
  \<open>invoice_processor.py\<close>.
\<close>

theorem parse_amount_unparsed_is_lossless:
  "(t \<noteq> [] \<and> fst (clean_currency_text t) = None \<longrightarrow>
      parse_amount_with_currency t =
        \<lparr>amount_value = PyStr t, amount_currency = [], amount_formatted = Raw t\<rparr>)
   \<and> (t \<noteq> [] \<and> \<not> is_number (fst (ip_clean_currency_text t)) \<longrightarrow>
      ip_parse_amount_with_currency t =
        \<lparr>amount_value = PyStr t, amount_currency = [], amount_formatted = Raw t\<rparr>)"
  using parse_amount_unparsed ip_parse_amount_unparsed by blast

theorem parse_amount_unparsed_is_lossless_witness:
  "str ''$ n/a'' \<noteq> [] \<and> fst (clean_currency_text (str ''$ n/a'')) = None
   \<and> parse_amount_with_currency (str ''$ n/a'') =
       \<lparr>amount_value = PyStr (str ''$ n/a''), amount_currency = [],
        amount_formatted = Raw (str ''$ n/a'')\<rparr>"
proof -
  have h: "str ''$ n/a'' \<noteq> [] \<and> fst (clean_currency_text (str ''$ n/a'')) = None"
    by (simp add: text_defs re_defs parser_defs)
  with parse_amount_unparsed_is_lossless [of "str ''$ n/a''"] show ?thesis
    by blast
qed

section \<open>The amount parser on texts with a decimal digit\<close>

text \<open>
  Removing the currency symbols and the commas, stripping, and the decimal-convention
  step all keep the decimal digits of a text, and the number pattern matches at
  every decimal digit. So the parser finds a number in every text that holds one.
\<close>

lemma replace_char: "replace [c] [] s = filter (\<lambda>x. x \<noteq> c) s"
  unfolding replace_def by (induction s) auto

lemma dropWhile_keeps: "x \<in> set xs \<Longrightarrow> \<not> P x \<Longrightarrow> x \<in> set (dropWhile P xs)"
  by (induction xs) auto

lemma digit_not_space: "isdigit c \<Longrightarrow> \<not> isspace c"
  by (auto simp: isdigit_def isspace_def)

lemma strip_keeps_digit: "list_ex isdigit s \<Longrightarrow> list_ex isdigit (strip s)"
proof -
  assume "list_ex isdigit s"
  then obtain d where d: "d \<in> set s" "isdigit d"
    by (auto simp: list_ex_iff)
  then have sp: "\<not> isspace d"
    by (simp add: digit_not_space)
  with d have "d \<in> set (dropWhile isspace s)"
    by (simp add: dropWhile_keeps)
  then have "d \<in> set (rev (dropWhile isspace s))"
    by simp
  then have "d \<in> set (dropWhile isspace (rev (dropWhile isspace s)))"
    using sp by (rule dropWhile_keeps)
  with d show ?thesis
    by (auto simp: list_ex_iff strip_def)
qed

lemma filter_keeps_digit:
  "list_ex isdigit s \<Longrightarrow> \<not> isdigit c \<Longrightarrow> list_ex isdigit (filter (\<lambda>x. x \<noteq> c) s)"
  by (auto simp: list_ex_iff)

lemma split_on_not_Nil: "split_on sep s \<noteq> []"
  by (induction s) (auto split: list.splits)

lemma concat_split_on: "concat (split_on sep s) = filter (\<lambda>x. x \<noteq> sep) s"
  by (induction s) (auto split: list.splits simp: split_on_not_Nil)

lemma disambiguate_keeps_digit:
  assumes "list_ex isdigit s"
  shows "list_ex isdigit (disambiguate s)"
proof -
  have dot: "\<not> isdigit 46"
    by (simp add: isdigit_def)
  have f: "list_ex isdigit (filter (\<lambda>x. x \<noteq> 46) s)"
    using assms dot by (rule filter_keeps_digit)
  let ?parts = "split_on 46 s"
  have "concat (butlast ?parts @ [last ?parts]) = concat ?parts"
    using split_on_not_Nil [of 46 s] by simp
  then have "concat (butlast ?parts) @ last ?parts = concat ?parts"
    by simp
  then have "list_ex isdigit (concat (butlast ?parts) @ last ?parts)"
    using f by (simp add: concat_split_on)
  then have "list_ex isdigit (concat (butlast ?parts) @ str ''.'' @ last ?parts)"
    by (auto simp: list_ex_iff)
  with f assms show ?thesis
    by (simp add: disambiguate_def Let_def replace_char str_def)
qed

lemma star_self: "s \<in> set (matches (Star a) s)"
  by (subst matches.simps(6)) (simp del: matches.simps)

lemma opt_self: "s \<in> set (matches (Opt a) s)"
  by (simp add: Opt_def del: matches.simps(6))

lemma cat_mem:
  "t \<in> set (matches a s) \<Longrightarrow> u \<in> set (matches b t) \<Longrightarrow> u \<in> set (matches (Cat a b) s)"
  by (auto simp del: matches.simps(6))

lemma plus_digit: "isdigit c \<Longrightarrow> cs \<in> set (matches (Plus (Sym isdigit)) (c # cs))"
  unfolding Plus_def by (rule cat_mem [where t = cs]) (simp_all add: star_self del: matches.simps(6))

lemma number_re_at_digit:
  assumes "isdigit c"
  shows "matches number_re (c # cs) \<noteq> []"
proof -
  have "cs \<in> set (matches number_re (c # cs))"
    unfolding number_re_def
    by (intro cat_mem [OF opt_self] cat_mem [OF star_self] plus_digit assms)
  then show ?thesis
    by auto
qed

lemma re_search_finds_digit:
  "list_ex isdigit s \<Longrightarrow> re_search number_re s \<noteq> None"
proof (induction s)
  case Nil
  then show ?case by (simp del: matches.simps)
next
  case (Cons c cs)
  show ?case
  proof (cases "matches number_re (c # cs)")
    case Nil
    with number_re_at_digit [of c cs] have "\<not> isdigit c" by auto
    with Cons.prems have "list_ex isdigit cs" by simp
    with Cons.IH Nil show ?thesis by (simp del: matches.simps)
  next
    case (Cons t ts)
    then show ?thesis by (simp del: matches.simps)
  qed
qed

lemma symbols_keep_digit:
  assumes "list_ex isdigit s"
  shows "list_ex isdigit (foldl (\<lambda>c symbol. replace symbol [] c) s CURRENCY_SYMBOLS)"
  using assms
  by (auto simp: CURRENCY_SYMBOLS_def str_def replace_char list_ex_iff isdigit_def)

lemma unparsed_has_no_digit:
  assumes "\<not> is_number (amount_value (parse_amount_with_currency s))"
  shows "\<not> list_ex isdigit s"
proof
  assume d: "list_ex isdigit s"
  then have ne: "s \<noteq> []" by auto
  have comma: "\<not> isdigit 44" by (simp add: isdigit_def)
  have "list_ex isdigit (replace (str '','') []
          (foldl (\<lambda>c symbol. replace symbol [] c) s CURRENCY_SYMBOLS))"
    using symbols_keep_digit [OF d] comma by (simp add: str_def replace_char filter_keeps_digit)
  then have "re_search number_re (disambiguate (strip (replace (str '','') []
          (foldl (\<lambda>c symbol. replace symbol [] c) s CURRENCY_SYMBOLS)))) \<noteq> None"
    by (intro re_search_finds_digit disambiguate_keeps_digit strip_keeps_digit)
  then obtain m where "re_search number_re (disambiguate (strip (replace (str '','') []
          (foldl (\<lambda>c symbol. replace symbol [] c) s CURRENCY_SYMBOLS)))) = Some m"
    by auto
  then have "is_number (amount_value (parse_amount_with_currency s))"
    using ne by (simp add: parse_amount_with_currency_def clean_currency_text_def Let_def
        is_number_def)
  with assms show False by simp
qed

section \<open>The header matcher and the end-to-end scenario\<close>

lemma starts_with_self: "starts_with s s"
  by (induction s) simp_all

lemma starts_with_contains: "starts_with p s \<Longrightarrow> contains p s"
  by (cases s; cases p) simp_all

lemma contains_self: "contains s s"
  by (simp add: starts_with_contains starts_with_self)

lemma word_search_contains: "word_search l p s \<Longrightarrow> contains p s"
proof (induction s arbitrary: l)
  case Nil
  then show ?case by (cases p) (simp_all add: word_here_def)
next
  case (Cons c cs)
  then show ?case by (auto simp: word_here_def)
qed

lemma pattern_matches_contains: "pattern_matches h p = contains p h"
  unfolding pattern_matches_def using contains_self word_search_contains by blast

lemmas matcher_defs = HEADER_PATTERNS_def SUMMARY_INDICATORS_def
  header_clean_def pattern_matches_contains match_header_enhanced_def is_summary_row_def

lemma upto_1_4: "[1..4::int] = [1, 2, 3, 4]"
  by (simp add: upto.simps)

lemma header_matches_header_row:
  "header_matches header_row = [Some FDescription, Some FQuantity, Some FUnitPrice, Some FQuantity]"
  by (simp add: header_row_def text_defs matcher_defs header_matches_def)

lemma header_matches_data_row: "header_matches data_row = [None, None, None, None]"
  by (simp add: data_row_def text_defs matcher_defs header_matches_def)

lemma header_matches_summary_row:
  "header_matches summary_row = [Some FAmount, None, None, None]"
  by (simp add: summary_row_def text_defs matcher_defs header_matches_def)

lemma materialize_scenario:
  "materialize (snd (hd scenario_tables)) = Inr [header_row, data_row, summary_row]"
  by (simp add: scenario_tables_def materialize_def py_max_def dict_get_def upto_1_4
      header_row_def data_row_def summary_row_def)

lemma select_header_scenario:
  "select_header [header_row, data_row, summary_row] =
     Some (0, [Some FDescription, Some FQuantity, Some FUnitPrice, Some FQuantity], 4)"
  by (simp add: select_header_def header_candidates_def potential_headers_def
      header_matches_header_row header_matches_data_row header_matches_summary_row
      match_count_def max_by_key_def upt_rec Let_def)

lemma is_summary_row_data_row: "is_summary_row data_row = False"
  by (simp add: data_row_def text_defs matcher_defs)

lemma is_summary_row_summary_row: "is_summary_row summary_row = True"
  by (simp add: summary_row_def text_defs matcher_defs)

lemma row_item_data_row:
  "row_item [Some FDescription, Some FQuantity, Some FUnitPrice, Some FQuantity] data_row =
     Some \<lparr>Description = Some (str ''Consulting''), Quantity = Some (Num 1000),
           UnitPrice = Some \<lparr>amount_value = PyFloat (Num 100), amount_currency = [],
                             amount_formatted = Fixed2 (Num 100)\<rparr>,
           Amount = None\<rparr>"
  unfolding row_item_def is_summary_row_data_row
  by (simp add: data_row_def text_defs re_defs parser_defs SUMMARY_INDICATORS_def empty_item_def
      has_summary_term_def header_at_def quantity_of_def enumerate_eq_zip upt_rec)

lemma row_item_summary_row: "row_item hs summary_row = None"
  unfolding row_item_def is_summary_row_summary_row by simp

text \<open>
  Claim C2. The claim: on the table of the end-to-end scenario, line-item extraction
  returns exactly one line item, with Description \<open>"Consulting"\<close>, Quantity 10.0,
  UnitPrice 100.0 and Amount 1000.0, each header cell being assigned the field of
  the first synonym list that matches. Exactly one line item is returned, but the
  header cell \<open>"Amount"\<close> is assigned the field quantity: \<open>"amount"\<close> stands in the
  synonym list of quantity, which comes before the list of amount, whose own first
  synonym \<open>"amount"\<close> can therefore never be reached. The fourth column overwrites
  the quantity with 1000.0 and the line item has no Amount.
\<close>

theorem line_items_of_scenario:
  "match_header_enhanced (str ''Amount'') = Some FQuantity
   \<and> extract_line_items_from_tables scenario_tables =
       Inr [\<lparr>Description = Some (str ''Consulting''), Quantity = Some (Num 1000),
             UnitPrice = Some \<lparr>amount_value = PyFloat (Num 100), amount_currency = [],
                               amount_formatted = Fixed2 (Num 100)\<rparr>,
             Amount = None\<rparr>]"
proof -
  have "match_header_enhanced (str ''Amount'') = Some FQuantity"
    using header_matches_header_row by (simp add: header_matches_def header_row_def)
  moreover have "page_items (snd (hd scenario_tables)) =
       Inr [\<lparr>Description = Some (str ''Consulting''), Quantity = Some (Num 1000),
             UnitPrice = Some \<lparr>amount_value = PyFloat (Num 100), amount_currency = [],
                               amount_formatted = Fixed2 (Num 100)\<rparr>,
             Amount = None\<rparr>]"
    unfolding page_items_def materialize_scenario
    by (simp add: scenario_tables_def rows_items_def select_header_scenario row_item_data_row
        row_item_summary_row List.map_filter_def)
  ultimately show ?thesis
    by (simp add: scenario_tables_def)
qed

section \<open>Header detection\<close>

lemma key_less_irrefl: "\<not> key_less k k"
  by (simp add: key_less_def)

lemma key_not_less_trans:
  "\<not> key_less a b \<Longrightarrow> \<not> key_less b c \<Longrightarrow> \<not> key_less a c"
  by (auto simp: key_less_def)

lemma max_by_key_props:
  "max_by_key x xs \<in> set (x # xs)
   \<and> (\<forall>y \<in> set (x # xs). \<not> key_less (header_key (max_by_key x xs)) (header_key y))"
proof (induction xs arbitrary: x)
  case Nil
  show ?case by (simp add: max_by_key_def key_less_irrefl)
next
  case (Cons y ys)
  define z where "z = (if key_less (header_key x) (header_key y) then y else x)"
  have step: "max_by_key x (y # ys) = max_by_key z ys"
    by (simp add: max_by_key_def z_def)
  have ih: "max_by_key z ys \<in> set (z # ys)"
    "\<forall>w \<in> set (z # ys). \<not> key_less (header_key (max_by_key z ys)) (header_key w)"
    using Cons.IH [of z] by blast+
  have top: "\<not> key_less (header_key (max_by_key z ys)) (header_key z)"
    using ih(2) by simp
  have zx: "\<not> key_less (header_key z) (header_key x)"
    by (auto simp: z_def key_less_def)
  have zy: "\<not> key_less (header_key z) (header_key y)"
    by (auto simp: z_def key_less_def)
  have "max_by_key z ys \<in> set (x # y # ys)"
    using ih(1) by (auto simp: z_def split: if_splits)
  moreover have "\<forall>w \<in> set (x # y # ys). \<not> key_less (header_key (max_by_key z ys)) (header_key w)"
    using ih(2) key_not_less_trans [OF top zx] key_not_less_trans [OF top zy] by auto
  ultimately show ?case
    unfolding step by blast
qed

lemma potential_headers_iff:
  "(j, hs, m) \<in> set (potential_headers rows) \<longleftrightarrow>
     j < min 4 (length rows) \<and> hs = header_matches (rows ! j) \<and> m = match_count hs \<and> 2 \<le> m"
  by (auto simp: potential_headers_def Let_def)

lemma relaxed_headers_iff:
  "(j, hs, m) \<in> set (relaxed_headers rows) \<longleftrightarrow>
     j < min 3 (length rows) \<and> hs = header_matches (rows ! j) \<and> m = match_count hs \<and> 1 \<le> m
     \<and> list_ex (\<lambda>word. contains word (lower (join (str '' '') (rows ! j)))) HEADER_WORDS"
  by (auto simp: relaxed_headers_def Let_def in_set_enumerate_eq split: if_splits)

text \<open>
  Claim C7. Header detection looks at the first four rows; a row qualifies when at
  least two of its cells match a header. Whenever some row \<open>j\<close> of the first four
  qualifies, a header row \<open>i\<close> is selected. It is itself a qualifying row of the
  first four, and it has more matches than row \<open>j\<close>, or as many and an index that
  is not greater. So the selected row has the highest match count of the qualifying
  rows, and the lowest index among those of that count.
\<close>

theorem select_header_over_rows:
  assumes "j < min 4 (length rows)" and "2 \<le> match_count (header_matches (rows ! j))"
  shows "\<exists>i. select_header rows =
               Some (i, header_matches (rows ! i), match_count (header_matches (rows ! i)))
           \<and> i < min 4 (length rows)
           \<and> 2 \<le> match_count (header_matches (rows ! i))
           \<and> (match_count (header_matches (rows ! j)) < match_count (header_matches (rows ! i))
                \<or> (match_count (header_matches (rows ! j)) = match_count (header_matches (rows ! i))
                    \<and> i \<le> j))"
proof -
  let ?cj = "(j, header_matches (rows ! j), match_count (header_matches (rows ! j)))"
  have cj: "?cj \<in> set (potential_headers rows)"
    using assms by (simp add: potential_headers_iff)
  then have ne: "potential_headers rows \<noteq> []"
    by auto
  then have cands: "header_candidates rows = potential_headers rows"
    by (simp add: header_candidates_def)
  obtain x xs where split: "potential_headers rows = x # xs"
    using ne by (cases "potential_headers rows") auto
  obtain i hs n where best: "max_by_key x xs = (i, hs, n)"
    by (cases "max_by_key x xs") auto
  have sel: "select_header rows = Some (i, hs, n)"
    by (simp add: select_header_def cands split best)
  have mem: "(i, hs, n) \<in> set (potential_headers rows)"
    using max_by_key_props [of x xs] split best by simp
  then have shape: "i < min 4 (length rows) \<and> hs = header_matches (rows ! i)
      \<and> n = match_count hs \<and> 2 \<le> n"
    unfolding potential_headers_iff .
  have "\<forall>y \<in> set (potential_headers rows). \<not> key_less (header_key (i, hs, n)) (header_key y)"
    using max_by_key_props [of x xs] split best by simp
  with cj have "\<not> key_less (header_key (i, hs, n)) (header_key ?cj)"
    by blast
  then have "match_count (header_matches (rows ! j)) < n
             \<or> (match_count (header_matches (rows ! j)) = n \<and> i \<le> j)"
    by (auto simp: key_less_def header_key_def)
  with sel shape show ?thesis
    by blast
qed

lemma header_matches_tie_row:
  "header_matches [str ''Qty'', str ''Rate''] = [Some FQuantity, Some FUnitPrice]"
  "header_matches [str ''A'', str ''B''] = [None, None]"
  by (simp_all add: text_defs matcher_defs header_matches_def)

lemma header_candidates_tie_rows:
  "header_candidates tie_rows =
     [(1, [Some FQuantity, Some FUnitPrice], 2), (2, [Some FQuantity, Some FUnitPrice], 2)]"
  by (simp add: tie_rows_def header_candidates_def potential_headers_def header_matches_tie_row
      match_count_def upt_rec Let_def)

lemma select_header_tie_rows:
  "select_header tie_rows = Some (1, [Some FQuantity, Some FUnitPrice], 2)"
  by (simp add: select_header_def header_candidates_tie_rows max_by_key_def key_less_def
      header_key_def)

text \<open>
  The tie of the specification: rows 1 and 2 both have two matching cells, and row 1
  is selected.
\<close>

theorem select_header_over_rows_witness:
  "2 < min 4 (length tie_rows)
   \<and> 2 \<le> match_count (header_matches (tie_rows ! 2))
   \<and> match_count (header_matches (tie_rows ! 1)) = match_count (header_matches (tie_rows ! 2))
   \<and> select_header tie_rows = Some (1, header_matches (tie_rows ! 1), 2)"
proof -
  have j: "2 < min 4 (length tie_rows)" and m: "2 \<le> match_count (header_matches (tie_rows ! 2))"
    by (simp_all add: tie_rows_def header_matches_tie_row match_count_def)
  from select_header_over_rows [OF j m] select_header_tie_rows show ?thesis
    by (simp add: tie_rows_def header_matches_tie_row match_count_def)
qed

text \<open>
  When no row reaches two matches, the same selection is made among the rows the
  relaxed pass accepts. No header is selected only when both passes accept no row.
\<close>

lemma select_header_relaxed:
  assumes "potential_headers rows = []" and "(j, hs, m) \<in> set (relaxed_headers rows)"
  shows "\<exists>i hs' n. select_header rows = Some (i, hs', n)
           \<and> (i, hs', n) \<in> set (relaxed_headers rows)
           \<and> (m < n \<or> (m = n \<and> i \<le> j))"
proof -
  have cands: "header_candidates rows = relaxed_headers rows"
    using assms(1) by (simp add: header_candidates_def)
  obtain x xs where split: "relaxed_headers rows = x # xs"
    using assms(2) by (cases "relaxed_headers rows") auto
  obtain i hs' n where best: "max_by_key x xs = (i, hs', n)"
    by (cases "max_by_key x xs") auto
  have sel: "select_header rows = Some (i, hs', n)"
    by (simp add: select_header_def cands split best)
  have mem: "(i, hs', n) \<in> set (relaxed_headers rows)"
    using max_by_key_props [of x xs] split best by simp
  have "\<forall>y \<in> set (relaxed_headers rows). \<not> key_less (header_key (i, hs', n)) (header_key y)"
    using max_by_key_props [of x xs] split best by simp
  with assms(2) have "\<not> key_less (header_key (i, hs', n)) (header_key (j, hs, m))"
    by blast
  then have "m < n \<or> (m = n \<and> i \<le> j)"
    by (auto simp: key_less_def header_key_def)
  with sel mem show ?thesis
    by blast
qed

lemma select_header_none:
  "select_header rows = None \<longleftrightarrow> potential_headers rows = [] \<and> relaxed_headers rows = []"
proof -
  have "select_header rows = None \<longleftrightarrow> header_candidates rows = []"
    by (cases "header_candidates rows") (simp_all add: select_header_def split: prod.splits)
  then show ?thesis
    by (auto simp: header_candidates_def Let_def)
qed

section \<open>Several columns of one field\<close>

lemma last_option_Cons: "last_option (x # xs) = (case last_option xs of None \<Rightarrow> Some x | Some y \<Rightarrow> Some y)"
  by (simp add: last_option_def)

lemma assigned_cells_Nil: "assigned_cells f hs [] = []"
  by (simp add: assigned_cells_def)

lemma assigned_cells_Cons:
  "assigned_cells f hs ((i, cell) # rest) =
     (if header_at hs i = Some f \<and> strip cell \<noteq> [] then strip cell # assigned_cells f hs rest
      else assigned_cells f hs rest)"
  by (simp add: assigned_cells_def)

lemma process_cells_description:
  "process_cells hs cells (item0, m0) = (item, True) \<Longrightarrow>
     Description item =
       (case last_option (assigned_cells FDescription hs cells) of
          None \<Rightarrow> Description item0 | Some d \<Rightarrow> Some d)"
proof (induction cells arbitrary: item0 m0)
  case Nil
  then show ?case by (simp add: assigned_cells_Nil last_option_def)
next
  case (Cons x cells)
  obtain i cell where x: "x = (i, cell)" by (cases x)
  show ?case
    using Cons.prems Cons.IH
    by (auto simp: x assigned_cells_Cons last_option_Cons Let_def
        split: option.splits field.splits if_splits)
qed

lemma process_cells_quantity:
  "process_cells hs cells (item0, m0) = (item, True) \<Longrightarrow>
     Quantity item =
       (case last_option (List.map_filter quantity_of (assigned_cells FQuantity hs cells)) of
          None \<Rightarrow> Quantity item0 | Some v \<Rightarrow> Some v)"
proof (induction cells arbitrary: item0 m0)
  case Nil
  then show ?case by (simp add: assigned_cells_Nil last_option_def List.map_filter_simps)
next
  case (Cons x cells)
  obtain i cell where x: "x = (i, cell)" by (cases x)
  show ?case
    using Cons.prems Cons.IH
    by (auto simp: x assigned_cells_Cons last_option_Cons Let_def List.map_filter_simps
        split: option.splits field.splits if_splits)
qed

lemma process_cells_unitprice:
  "process_cells hs cells (item0, m0) = (item, True) \<Longrightarrow>
     UnitPrice item =
       (case last_option (map parse_amount_with_currency (assigned_cells FUnitPrice hs cells)) of
          None \<Rightarrow> UnitPrice item0 | Some a \<Rightarrow> Some a)"
proof (induction cells arbitrary: item0 m0)
  case Nil
  then show ?case by (simp add: assigned_cells_Nil last_option_def)
next
  case (Cons x cells)
  obtain i cell where x: "x = (i, cell)" by (cases x)
  show ?case
    using Cons.prems Cons.IH
    by (auto simp: x assigned_cells_Cons last_option_Cons Let_def
        split: option.splits field.splits if_splits)
qed

lemma process_cells_amount:
  "process_cells hs cells (item0, m0) = (item, True) \<Longrightarrow>
     Amount item =
       (case last_option (map parse_amount_with_currency (assigned_cells FAmount hs cells)) of
          None \<Rightarrow> Amount item0 | Some a \<Rightarrow> Some a)"
proof (induction cells arbitrary: item0 m0)
  case Nil
  then show ?case by (simp add: assigned_cells_Nil last_option_def)
next
  case (Cons x cells)
  obtain i cell where x: "x = (i, cell)" by (cases x)
  show ?case
    using Cons.prems Cons.IH
    by (auto simp: x assigned_cells_Cons last_option_Cons Let_def
        split: option.splits field.splits if_splits)
qed

lemma row_item_process_cells:
  assumes "row_item hs row = Some item"
  shows "process_cells hs (enumerate 0 row) (empty_item, False) = (item, True)"
  using assms by (auto simp: row_item_def split: if_splits prod.splits)

text \<open>
  Claim C10. In an emitted line item, each of Description, UnitPrice and Amount is
  taken from the rightmost non-blank cell among the columns the header row assigns
  to that field, and Quantity from the rightmost such cell that yields a number;
  what the columns to the left recorded is overwritten. A field no column gives a
  value to is absent.
\<close>

theorem row_item_keeps_rightmost:
  assumes "row_item hs row = Some item"
  shows "Description item = last_option (assigned_cells FDescription hs (enumerate 0 row))
     \<and> Quantity item =
         last_option (List.map_filter quantity_of (assigned_cells FQuantity hs (enumerate 0 row)))
     \<and> UnitPrice item =
         last_option (map parse_amount_with_currency (assigned_cells FUnitPrice hs (enumerate 0 row)))
     \<and> Amount item =
         last_option (map parse_amount_with_currency (assigned_cells FAmount hs (enumerate 0 row)))"
proof -
  note run = row_item_process_cells [OF assms]
  have "Description item = last_option (assigned_cells FDescription hs (enumerate 0 row))"
    using process_cells_description [OF run] by (simp add: empty_item_def split: option.splits)
  moreover have "Quantity item =
         last_option (List.map_filter quantity_of (assigned_cells FQuantity hs (enumerate 0 row)))"
    using process_cells_quantity [OF run] by (simp add: empty_item_def split: option.splits)
  moreover have "UnitPrice item =
         last_option (map parse_amount_with_currency (assigned_cells FUnitPrice hs (enumerate 0 row)))"
    using process_cells_unitprice [OF run] by (simp add: empty_item_def split: option.splits)
  moreover have "Amount item =
         last_option (map parse_amount_with_currency (assigned_cells FAmount hs (enumerate 0 row)))"
    using process_cells_amount [OF run] by (simp add: empty_item_def split: option.splits)
  ultimately show ?thesis by blast
qed

lemma is_summary_row_dup_row: "is_summary_row dup_row = False"
  by (simp add: dup_row_def text_defs matcher_defs)

lemma row_item_dup_row:
  "row_item dup_headers dup_row =
     Some \<lparr>Description = None, Quantity = Some (Num 7),
           UnitPrice = Some \<lparr>amount_value = PyFloat (Num 2), amount_currency = [],
                             amount_formatted = Fixed2 (Num 2)\<rparr>,
           Amount = None\<rparr>"
  unfolding row_item_def is_summary_row_dup_row
  by (simp add: dup_row_def dup_headers_def text_defs re_defs parser_defs empty_item_def
      header_at_def quantity_of_def float_of_text_def enumerate_eq_zip upt_rec)

lemma quantities_dup_row:
  "assigned_cells FQuantity dup_headers (enumerate 0 dup_row) = [str ''5'', str ''7'', str ''n/a'']"
  "assigned_cells FUnitPrice dup_headers (enumerate 0 dup_row) = [str ''1.00'', str ''2.00'']"
  by (simp_all add: dup_row_def dup_headers_def assigned_cells_def header_at_def text_defs
      enumerate_eq_zip upt_rec)

text \<open>
  Three columns are assigned to quantity and three to unit price. The quantity is
  7, from the second column: the third holds no number. The unit price is 2.00,
  from the fifth column: the sixth is blank.
\<close>

theorem row_item_keeps_rightmost_witness:
  "row_item dup_headers dup_row =
     Some \<lparr>Description = None, Quantity = Some (Num 7),
           UnitPrice = Some \<lparr>amount_value = PyFloat (Num 2), amount_currency = [],
                             amount_formatted = Fixed2 (Num 2)\<rparr>,
           Amount = None\<rparr>
   \<and> assigned_cells FQuantity dup_headers (enumerate 0 dup_row) = [str ''5'', str ''7'', str ''n/a'']
   \<and> last_option (List.map_filter quantity_of
         (assigned_cells FQuantity dup_headers (enumerate 0 dup_row))) = Some (Num 7)
   \<and> assigned_cells FUnitPrice dup_headers (enumerate 0 dup_row) = [str ''1.00'', str ''2.00'']"
  using row_item_keeps_rightmost [OF row_item_dup_row] row_item_dup_row quantities_dup_row
  by simp

section \<open>The invoice total\<close>

lemmas resolver_defs = TOTAL_KEYWORDS_def INCLUSIVE_TERMS_def contains_any_def positive_number_def
  kv_step_def kv_tier_def table_bonus_def table_candidates_def

lemma parse_500: "parse_amount_with_currency (str ''$500.00'') = dollars 500"
  by (simp add: dollars_def text_defs re_defs parser_defs)

lemma kv_tier_example: "kv_tier total_kv_pairs = (Some (dollars 500), 14)"
proof -
  have "kv_tier total_kv_pairs =
          foldl (kv_step (str ''grand total'', str ''$500.00'')) (None, 0) TOTAL_KEYWORDS"
    by (simp add: kv_tier_def total_kv_pairs_def)
  also have "\<dots> = (Some (dollars 500), 14)"
    by (simp add: TOTAL_KEYWORDS_def kv_step_def INCLUSIVE_TERMS_def contains_any_def
        positive_number_def dollars_def text_defs re_defs parser_defs)
  finally show ?thesis .
qed

lemma table_candidates_example:
  "table_candidates total_table_totals = [(dollars 1000, 11), (dollars 1000, 25)]"
proof -
  have "table_candidates total_table_totals =
          concat (map (\<lambda>(keyword, priority).
                         if contains keyword (lower (str ''total fees and disbursements: $1000.00''))
                            \<and> positive_number (amount_value (parse_amount_with_currency
                                  (str ''total fees and disbursements: $1000.00'')))
                         then [(parse_amount_with_currency (str ''total fees and disbursements: $1000.00''),
                                priority + table_bonus (lower (str ''total fees and disbursements: $1000.00'')))]
                         else [])
                    TOTAL_KEYWORDS)"
    by (simp add: table_candidates_def total_table_totals_def)
  also have "\<dots> = [(dollars 1000, 11), (dollars 1000, 25)]"
    by (simp add: TOTAL_KEYWORDS_def table_bonus_def positive_number_def dollars_def
        text_defs re_defs parser_defs)
  finally show ?thesis .
qed

lemma sort_key_head:
  assumes "sort_key (\<lambda>x. - snd x) cs = b # rest"
  shows "b \<in> set cs \<and> (\<forall>d \<in> set cs. snd d \<le> (snd b :: int))"
proof -
  have mem: "set (b # rest) = set cs"
    using assms set_sort [of "\<lambda>x. - snd x" cs] by simp
  have "sorted (map (\<lambda>x. - snd x) (b # rest))"
    using assms sorted_sort_key [of "\<lambda>x. - snd x" cs] by simp
  then have "\<forall>d \<in> set rest. - snd b \<le> - snd d"
    by simp
  then have "\<forall>d \<in> set (b # rest). snd d \<le> snd b"
    by simp
  with mem show ?thesis
    by (metis list.set_intros(1))
qed

lemma table_tier_keeps:
  assumes "\<forall>c \<in> set candidates. snd c \<le> snd state"
  shows "table_tier candidates state = state"
proof (cases "sort_key (\<lambda>x. - snd x) candidates")
  case Nil
  then show ?thesis by (simp add: table_tier_def)
next
  case (Cons b rest)
  with sort_key_head [OF Cons] assms have "\<not> snd state < snd b"
    by (simp add: leD)
  with Cons show ?thesis by (simp add: table_tier_def)
qed

lemma table_tier_replaces:
  assumes "\<exists>c \<in> set candidates. snd state < snd c"
  shows "\<exists>c \<in> set candidates. table_tier candidates state = (Some (fst c), snd c)
           \<and> snd state < snd c \<and> (\<forall>d \<in> set candidates. snd d \<le> snd c)"
proof (cases "sort_key (\<lambda>x. - snd x) candidates")
  case Nil
  then have "set candidates = {}"
    using set_sort [of "\<lambda>x. - snd x" candidates] by simp
  with assms show ?thesis by simp
next
  case (Cons b rest)
  note head = sort_key_head [OF Cons]
  from assms head have "snd state < snd b"
    by (meson less_le_trans)
  with Cons have "table_tier candidates state = (Some (fst b), snd b)"
    by (simp add: table_tier_def)
  with head \<open>snd state < snd b\<close> show ?thesis by blast
qed

lemma find_invoice_total_example:
  "find_invoice_total total_kv_pairs total_table_totals all_text = dollars 1000"
proof -
  have "table_tier (table_candidates total_table_totals) (kv_tier total_kv_pairs)
          = (Some (dollars 1000), 25)"
    by (simp add: table_tier_def kv_tier_example table_candidates_example)
  then show ?thesis
    by (simp add: find_invoice_total_def regex_tier_def)
qed

text \<open>
  Claim C5. With the key-value pair \<open>{"grand total": "$500.00"}\<close> the key-value tier
  ends at priority 14 (9 for the keyword and 5 for the exact match); the table total
  \<open>"total fees and disbursements: $1000.00"\<close> gives candidates of priority 11 and 25.
  The table candidate wins and the resolved total is 1000.0, whatever the document
  text. In general the table tier leaves the running best as it is when no candidate
  has a strictly greater priority, and otherwise replaces it by a candidate of
  greatest priority, which is strictly greater than the running one.
\<close>

theorem table_total_replaces_only_when_greater:
  "snd (kv_tier total_kv_pairs) = 14
   \<and> map snd (table_candidates total_table_totals) = [11, 25]
   \<and> amount_value (find_invoice_total total_kv_pairs total_table_totals all_text)
       = PyFloat (Num 1000)
   \<and> ((\<forall>c \<in> set candidates. snd c \<le> snd state) \<longrightarrow> table_tier candidates state = state)
   \<and> ((\<exists>c \<in> set candidates. snd state < snd c) \<longrightarrow>
         (\<exists>c \<in> set candidates. table_tier candidates state = (Some (fst c), snd c)
            \<and> snd state < snd c \<and> (\<forall>d \<in> set candidates. snd d \<le> snd c)))"
  using table_tier_keeps [of candidates state] table_tier_replaces [of candidates state]
  by (simp add: kv_tier_example table_candidates_example find_invoice_total_example dollars_def)

text \<open>The general statement at the candidates and the running best of the scenario.\<close>

theorem table_total_replaces_witness:
  "(\<exists>c \<in> set (table_candidates total_table_totals). snd (kv_tier total_kv_pairs) < snd c)
   \<and> table_tier (table_candidates total_table_totals) (kv_tier total_kv_pairs)
       = (Some (dollars 1000), 25)"
  using table_total_replaces_only_when_greater
          [where candidates = "table_candidates total_table_totals"
             and state = "kv_tier total_kv_pairs"]
  by (auto simp: kv_tier_example table_candidates_example)

section \<open>The step of the loop over the query results\<close>

lemmas question_defs = Q_NUMBER_def Q_DATE_def Q_TOTAL_def Q_TERMS_def

lemma questions_distinct:
  "Q_NUMBER \<noteq> Q_DATE" "Q_NUMBER \<noteq> Q_TOTAL" "Q_NUMBER \<noteq> Q_TERMS"
  "Q_DATE \<noteq> Q_TOTAL" "Q_DATE \<noteq> Q_TERMS" "Q_TOTAL \<noteq> Q_TERMS"
  by (simp_all add: question_defs str_def)

lemma apply_query_number:
  "InvoiceNumber (apply_query p q) =
     (if query_answer q \<noteq> [] \<and> query_text q = Q_NUMBER then Some (query_answer q)
      else InvoiceNumber p)"
  using questions_distinct by (simp add: apply_query_def Let_def)

lemma apply_query_date:
  "InvoiceDate (apply_query p q) =
     (if query_answer q \<noteq> [] \<and> query_text q = Q_DATE then Some (query_answer q)
      else InvoiceDate p)"
  using questions_distinct by (simp add: apply_query_def Let_def)

lemma apply_query_terms:
  "PaymentTerms (apply_query p q) =
     (if query_answer q \<noteq> [] \<and> query_text q = Q_TERMS then Some (query_answer q)
      else PaymentTerms p)"
  using questions_distinct by (simp add: apply_query_def Let_def)

lemma apply_query_total:
  "InvoiceTotal (apply_query p q) =
     (if query_answer q \<noteq> [] \<and> query_text q = Q_TOTAL
         \<and> is_number (amount_value (parse_amount_with_currency (query_answer q)))
      then parse_amount_with_currency (query_answer q)
      else InvoiceTotal p)"
  using questions_distinct by (simp add: apply_query_def Let_def)

lemma apply_query_items: "LineItems (apply_query p q) = LineItems p"
  by (simp add: apply_query_def Let_def)

section \<open>The extraction returns a record\<close>

lemma collect_Inr:
  "list_all (\<lambda>x. \<exists>y. x = Inr y) xs \<Longrightarrow> \<exists>ys. collect xs = Inr ys"
proof (induction xs)
  case Nil
  then show ?case by simp
next
  case (Cons x xs)
  then obtain y ys where "x = Inr y" and "collect xs = Inr ys" by auto
  then show ?case by simp
qed

lemma py_max_Inr: "xs \<noteq> [] \<Longrightarrow> \<exists>m. py_max xs = Inr m"
  by (cases xs) (simp_all add: py_max_def)

lemma materialize_total:
  assumes "list_all (\<lambda>(r, cells). cells \<noteq> []) rows_dict"
  shows "\<exists>rows. materialize rows_dict = Inr rows"
proof -
  have "list_all (\<lambda>x. \<exists>y. x = Inr y) (map (\<lambda>(r, cells). py_max (map fst cells)) rows_dict)"
    using assms by (auto simp: list_all_iff intro: py_max_Inr)
  from collect_Inr [OF this] show ?thesis
    by (auto simp: materialize_def)
qed

lemma page_items_total:
  assumes "list_all (\<lambda>(r, cells). cells \<noteq> []) rows_dict"
  shows "\<exists>items. page_items rows_dict = Inr items"
  using materialize_total [OF assms] by (auto simp: page_items_def)

lemma extract_line_items_total:
  "list_all (\<lambda>(page, rows_dict). list_all (\<lambda>(r, cells). cells \<noteq> []) rows_dict) ts \<Longrightarrow>
     \<exists>items. extract_line_items_from_tables ts = Inr items"
proof (induction ts)
  case Nil
  then show ?case by simp
next
  case (Cons t ts)
  obtain page rows_dict where t: "t = (page, rows_dict)" by (cases t)
  from Cons.prems t obtain items where "page_items rows_dict = Inr items"
    using page_items_total by auto
  moreover from Cons obtain others where "extract_line_items_from_tables ts = Inr others"
    by auto
  ultimately show ?case by (simp add: t)
qed

lemma map_snd_number_from_one: "map snd (number_from_one xs) = xs"
  by (simp add: number_from_one_def comp_def case_prod_unfold)

lemma list_all_snd: "list_all (\<lambda>(i, x). P x) ys = list_all P (map snd ys)"
  by (induction ys) auto

lemma number_from_one_empty: "number_from_one xs = [] \<longleftrightarrow> xs = []"
  by (cases xs) (simp_all add: number_from_one_def)

lemma in_number_from_one: "(i, x) \<in> set (number_from_one xs) \<Longrightarrow> x \<in> set xs"
proof -
  assume "(i, x) \<in> set (number_from_one xs)"
  then have "snd (i, x) \<in> set (map snd (number_from_one xs))"
    by (metis imageI set_map)
  then show ?thesis
    by (simp add: map_snd_number_from_one)
qed

lemma build_tables_dict_rows:
  assumes "list_all (list_all (\<lambda>row. row \<noteq> [])) ts"
  shows "list_all (\<lambda>(page, rows_dict). list_all (\<lambda>(r, cells). cells \<noteq> []) rows_dict)
           (build_tables_dict ts)"
proof -
  have "cells \<noteq> []"
    if "(page, rows_dict) \<in> set (build_tables_dict ts)" and "(r, cells) \<in> set rows_dict"
    for page rows_dict r cells
  proof -
    from that(1) have "rows_dict \<in> set (map (\<lambda>rows. number_from_one (map number_from_one rows)) ts)"
      unfolding build_tables_dict_def by (rule in_number_from_one)
    then obtain rows where rows: "rows \<in> set ts"
      and rd: "rows_dict = number_from_one (map number_from_one rows)"
      by auto
    from that(2) have "cells \<in> set (map number_from_one rows)"
      unfolding rd by (rule in_number_from_one)
    then obtain row where row: "row \<in> set rows" and c: "cells = number_from_one row"
      by auto
    from assms rows row have "row \<noteq> []"
      by (auto simp: list_all_iff)
    with c show ?thesis
      by (simp add: number_from_one_empty)
  qed
  then show ?thesis
    by (auto simp: list_all_iff)
qed

lemma heuristic_data_total:
  assumes "list_all (list_all (\<lambda>row. row \<noteq> [])) (tables r)"
  shows "\<exists>h. heuristic_data r = Inr h
            \<and> InvoiceTotal h = find_invoice_total (build_kv_pairs (forms r))
                 (build_table_totals (build_tables_dict (tables r)))
                 (build_all_text r (build_kv_pairs (forms r)))"
  using extract_line_items_total [OF build_tables_dict_rows [OF assms]]
  by (auto simp: heuristic_data_def Let_def)














lemmas pattern_defs = ci_def lit_def seq_def ws_def at_least3_def idchar_def number_word_def
  space_or_colon_def space_or_dash_def INVOICE_NUMBER_PATTERNS_def amount_group_def
  non_digits_def TOTAL_PATTERNS_def match_group_def finditer_def

lemma total_patterns_need_text:
  "list_all (\<lambda>p. matches (fst (fst p)) [] = []) TOTAL_PATTERNS"
  by (simp add: TOTAL_PATTERNS_def lit_def ci_def)

lemma finditer_Nil: "matches prefix [] = [] \<Longrightarrow> finditer prefix grp [] = []"
  by (simp add: finditer_def match_group_def)

lemma foldl_unchanged: "(\<And>x. x \<in> set xs \<Longrightarrow> f st x = st) \<Longrightarrow> foldl f st xs = st"
  by (induction xs) simp_all

lemma regex_tier_empty: "regex_tier [] state = state"
proof -
  have "foldl (\<lambda>st (pattern, priority).
                 foldl (regex_step priority) st (finditer (fst pattern) (snd pattern) []))
          state TOTAL_PATTERNS = state"
  proof (rule foldl_unchanged)
    fix x :: "(re \<times> re) \<times> int"
    assume "x \<in> set TOTAL_PATTERNS"
    with total_patterns_need_text have "matches (fst (fst x)) [] = []"
      by (simp add: list_all_iff)
    then show "(case x of (pattern, priority) \<Rightarrow>
                 foldl (regex_step priority) state (finditer (fst pattern) (snd pattern) [])) = state"
      by (simp add: case_prod_unfold finditer_Nil)
  qed
  then show ?thesis
    by (simp add: regex_tier_def)
qed

lemma find_invoice_number_empty: "find_invoice_number [] [] = None"
  by (simp add: find_invoice_number_def pattern_defs re_defs text_defs List.map_filter_def)

lemma build_all_text_empty: "build_all_text empty_results [] = []"
  by (simp add: build_all_text_def empty_results_def)

lemma heuristic_without_structure:
  assumes "forms r = []" and "tables r = []"
    and "find_invoice_number [] (build_all_text r []) = None"
    and "regex_tier (build_all_text r []) (None, 0) = (None, 0)"
  shows "heuristic_data r = Inr default_invoice"
proof -
  have kv: "build_kv_pairs (forms r) = []"
    using assms(1) by (simp add: build_kv_pairs_def)
  have td: "build_tables_dict (tables r) = []"
    using assms(2) by (simp add: build_tables_dict_def number_from_one_def)
  have tt: "build_table_totals [] = []"
    by (simp add: build_table_totals_def)
  have total: "find_invoice_total [] [] (build_all_text r []) = no_total"
    using assms(4)
    by (simp add: find_invoice_total_def kv_tier_def table_candidates_def table_tier_def)
  show ?thesis
    using assms(3) total
    by (simp add: heuristic_data_def kv td tt find_invoice_date_def find_payment_terms_def
        default_invoice_def)
qed









section \<open>Query answers\<close>

lemma last_option_snoc: "last_option (xs @ [x]) = Some x"
  by (simp add: last_option_def)

lemma answers_to_snoc:
  "answers_to question (qs @ [q]) =
     (if query_text q = question \<and> query_answer q \<noteq> []
      then answers_to question qs @ [query_answer q] else answers_to question qs)"
  by (simp add: answers_to_def)

lemma foldl_apply_query_number_last:
  "InvoiceNumber (foldl apply_query p qs) =
     (case last_option (answers_to Q_NUMBER qs) of
        None \<Rightarrow> InvoiceNumber p | Some a \<Rightarrow> Some a)"
proof (induction qs rule: rev_induct)
  case Nil
  show ?case by (simp add: answers_to_def last_option_def)
next
  case (snoc q qs)
  then show ?case
    by (simp add: apply_query_number answers_to_snoc last_option_snoc)
qed

lemma foldl_apply_query_date_last:
  "InvoiceDate (foldl apply_query p qs) =
     (case last_option (answers_to Q_DATE qs) of
        None \<Rightarrow> InvoiceDate p | Some a \<Rightarrow> Some a)"
proof (induction qs rule: rev_induct)
  case Nil
  show ?case by (simp add: answers_to_def last_option_def)
next
  case (snoc q qs)
  then show ?case
    by (simp add: apply_query_date answers_to_snoc last_option_snoc)
qed

lemma foldl_apply_query_terms_last:
  "PaymentTerms (foldl apply_query p qs) =
     (case last_option (answers_to Q_TERMS qs) of
        None \<Rightarrow> PaymentTerms p | Some a \<Rightarrow> Some a)"
proof (induction qs rule: rev_induct)
  case Nil
  show ?case by (simp add: answers_to_def last_option_def)
next
  case (snoc q qs)
  then show ?case
    by (simp add: apply_query_terms answers_to_snoc last_option_snoc)
qed

lemma foldl_apply_query_total_last:
  "InvoiceTotal (foldl apply_query p qs) =
     (case last_option (filter numeric_answer (answers_to Q_TOTAL qs)) of
        None \<Rightarrow> InvoiceTotal p | Some a \<Rightarrow> parse_amount_with_currency a)"
proof (induction qs rule: rev_induct)
  case Nil
  show ?case by (simp add: answers_to_def last_option_def)
next
  case (snoc q qs)
  then show ?case
    by (simp add: apply_query_total answers_to_snoc last_option_snoc numeric_answer_def)
qed

lemma foldl_apply_query_items: "LineItems (foldl apply_query p qs) = LineItems p"
  by (induction qs rule: rev_induct) (simp_all add: apply_query_items)

text \<open>
  Claim C6. The loop over the query results assigns the answer of every result that
  has a recognized question and a non-empty answer to the field of the question,
  one result after the other and whatever the confidence, which the statement
  leaves free. So each of InvoiceNumber, InvoiceDate and PaymentTerms is in the
  output record the last non-empty answer to its question, and the value of the
  heuristics when there is none. For the question of the total the answers are
  parsed: InvoiceTotal is the parsed amount of the last non-empty answer that is
  numeric, and the heuristic total when there is none. With one result for a
  question the field is the answer of that result. The line items are those of
  the heuristics. \<open>h\<close> is the record before the queries are applied.
\<close>

theorem query_answers_override:
  assumes "heuristic_data r = Inr h"
  shows "\<exists>out. parse_extracted_data r = Inr out
     \<and> InvoiceNumber out =
         (case last_option (answers_to Q_NUMBER (queries r)) of
            None \<Rightarrow> InvoiceNumber h | Some a \<Rightarrow> Some a)
     \<and> InvoiceDate out =
         (case last_option (answers_to Q_DATE (queries r)) of
            None \<Rightarrow> InvoiceDate h | Some a \<Rightarrow> Some a)
     \<and> PaymentTerms out =
         (case last_option (answers_to Q_TERMS (queries r)) of
            None \<Rightarrow> PaymentTerms h | Some a \<Rightarrow> Some a)
     \<and> InvoiceTotal out =
         (case last_option (filter numeric_answer (answers_to Q_TOTAL (queries r))) of
            None \<Rightarrow> InvoiceTotal h | Some a \<Rightarrow> parse_amount_with_currency a)
     \<and> LineItems out = LineItems h"
  using assms
  by (simp add: parse_extracted_data_def foldl_apply_query_number_last
      foldl_apply_query_date_last foldl_apply_query_terms_last foldl_apply_query_total_last
      foldl_apply_query_items)

lemma heuristic_data_no_tables:
  "tables r = [] \<Longrightarrow> \<exists>h. heuristic_data r = Inr h"
  using heuristic_data_total [of r] by auto

text \<open>
  The scenario of the specification: the heuristics find INV-0001, the query answers
  INV-9999, and the output record holds INV-9999.
\<close>

theorem query_answers_override_witness:
  "\<exists>h out. heuristic_data query_results = Inr h
     \<and> InvoiceNumber h = Some (str ''INV-0001'')
     \<and> answers_to Q_NUMBER (queries query_results) = [str ''INV-9999'']
     \<and> parse_extracted_data query_results = Inr out
     \<and> InvoiceNumber out = Some (str ''INV-9999'')"
proof -
  have "tables query_results = []"
    by (simp add: query_results_def)
  then obtain h where h: "heuristic_data query_results = Inr h"
    using heuristic_data_no_tables by blast
  have kv: "build_kv_pairs (forms query_results) = [(str ''invoice number'', str ''INV-0001'')]"
    by (simp add: build_kv_pairs_def query_results_def text_defs)
  have "find_invoice_number [(str ''invoice number'', str ''INV-0001'')] t = Some (str ''INV-0001'')" for t
    by (simp add: find_invoice_number_def INVOICE_NUMBER_TERMS_def contains_any_def text_defs)
  with h kv have hn: "InvoiceNumber h = Some (str ''INV-0001'')"
    by (auto simp: heuristic_data_def Let_def split: sum.splits)
  have ans: "answers_to Q_NUMBER (queries query_results) = [str ''INV-9999'']"
    by (simp add: query_results_def answers_to_def str_def)
  with query_answers_override [OF h] obtain out where
    "parse_extracted_data query_results = Inr out" and "InvoiceNumber out = Some (str ''INV-9999'')"
    by (auto simp: last_option_def)
  with h hn ans show ?thesis by blast
qed

lemma heuristic_data_two_answers: "heuristic_data two_answers = Inr default_invoice"
  by (rule heuristic_without_structure)
    (simp_all add: two_answers_def empty_results_def build_all_text_def
      find_invoice_number_empty regex_tier_empty)

text \<open>
  With two results for the question of the invoice number, the first answered A-1
  and the second B-2, the first result has a recognized question and a non-empty
  answer, and the output record holds B-2.
\<close>

theorem query_first_answer_counterexample:
  "hd (queries two_answers) \<in> set (queries two_answers)
   \<and> query_text (hd (queries two_answers)) = Q_NUMBER
   \<and> query_answer (hd (queries two_answers)) = str ''A-1''
   \<and> query_answer (hd (queries two_answers)) \<noteq> []
   \<and> parse_extracted_data two_answers = Inr (default_invoice\<lparr>InvoiceNumber := Some (str ''B-2'')\<rparr>)
   \<and> Some (str ''B-2'') \<noteq> Some (query_answer (hd (queries two_answers)))"
proof -
  have q: "queries two_answers =
      [\<lparr>query_text = Q_NUMBER, query_alias = str ''Q1'', query_answer = str ''A-1'',
         query_confidence = 99\<rparr>,
       \<lparr>query_text = Q_NUMBER, query_alias = str ''Q1'', query_answer = str ''B-2'',
         query_confidence = 10\<rparr>]"
    by (simp add: two_answers_def)
  have "parse_extracted_data two_answers = Inr (foldl apply_query default_invoice (queries two_answers))"
    by (simp add: parse_extracted_data_def heuristic_data_two_answers)
  also have "foldl apply_query default_invoice (queries two_answers) =
          default_invoice\<lparr>InvoiceNumber := Some (str ''B-2'')\<rparr>"
    unfolding q using questions_distinct
    by (simp add: apply_query_def Let_def str_def)
  finally have "parse_extracted_data two_answers =
          Inr (default_invoice\<lparr>InvoiceNumber := Some (str ''B-2'')\<rparr>)" .
  then show ?thesis
    by (simp add: two_answers_def empty_results_def str_def)
qed

end
